theory Spec2Isabelle
  imports Main
begin

section \<open>Strings\<close>

text \<open>
  JavaScript strings are modelled as byte strings. \<open>toLowerCase\<close> maps the
  ASCII letters \<open>A\<close>..\<open>Z\<close> (codes 65..90) to \<open>a\<close>..\<open>z\<close> and leaves every other
  byte alone; wallet addresses are \<open>0x\<close> followed by hexadecimal digits, so this is the
  part of \<open>String.prototype.toLowerCase\<close> that the program exercises.
\<close>

definition toLowerCase_char :: "char \<Rightarrow> char" where
  "toLowerCase_char c =
     (let n = (of_char c :: nat) in if 65 \<le> n \<and> n \<le> 90 then char_of (n + 32) else c)"

definition toLowerCase :: "string \<Rightarrow> string" where
  "toLowerCase s = map toLowerCase_char s"

text \<open>\<open>Buffer.from(message, 'utf8').toString('hex')\<close>: two lower-case hexadecimal
  digits for each byte.\<close>

definition hexDigit :: "nat \<Rightarrow> char" where
  "hexDigit n = (if n < 10 then char_of (48 + n) else char_of (87 + n))"

definition toHex :: "string \<Rightarrow> string" where
  "toHex s = concat (map (\<lambda>c. [hexDigit ((of_char c :: nat) div 16),
                                 hexDigit ((of_char c :: nat) mod 16)]) s)"

section \<open>Errors (lib/errors.js, lib/jwtUtils.js)\<close>

text \<open>
  Every \<open>throw\<close> of the source is a value of \<open>error\<close>:
  \<^item> \<open>ValidationError m\<close> is \<open>new ValidationError(m)\<close>: its message is
    \<open>Validation Error: m\<close> and its \<open>statusCode\<close> is 400;
  \<^item> \<open>TokenExpiredError\<close> is the class of jwtUtils.js, with a fixed message and
    \<open>statusCode\<close> 400;
  \<^item> \<open>Error m c\<close> is any other error object with message \<open>m\<close>: a plain
    \<open>new Error(m)\<close> of the program has no \<open>statusCode\<close> property (\<open>c = None\<close>), an
    error raised by an external service or library may carry one.
\<close>

datatype error =
    ValidationError string
  | TokenExpiredError
  | Error string "int option"

fun err_message :: "error \<Rightarrow> string" where
  "err_message (ValidationError m) = ''Validation Error: '' @ m"
| "err_message TokenExpiredError = ''Authentication token has expired''"
| "err_message (Error m c) = m"

fun err_statusCode :: "error \<Rightarrow> int option" where
  "err_statusCode (ValidationError m) = Some 400"
| "err_statusCode TokenExpiredError = Some 400"
| "err_statusCode (Error m c) = c"

text \<open>\<open>err.message = (err.message) || d\<close>: an empty message is replaced by the default.\<close>

fun orMessage :: "string \<Rightarrow> error \<Rightarrow> error" where
  "orMessage d (Error m c) = (if m = [] then Error d c else Error m c)"
| "orMessage d e = e"

text \<open>\<open>catch (err) { err.message = (err.message) || d; throw err; }\<close>\<close>

definition rethrow :: "string \<Rightarrow> error + 'a \<Rightarrow> error + 'a" where
  "rethrow d r = (case r of Inl e \<Rightarrow> Inl (orMessage d e) | Inr v \<Rightarrow> Inr v)"

text \<open>The error object of the API (class \<open>ApiError\<close>): the fields of the JSON message.\<close>

record ApiError =
  success :: bool
  statusCode :: int
  message :: string
  requestId :: string

definition newApiError :: "string \<Rightarrow> int \<Rightarrow> string \<Rightarrow> ApiError" where
  "newApiError msg code rid = \<lparr>success = False, statusCode = code, message = msg, requestId = rid\<rparr>"

section \<open>Data model\<close>

text \<open>The \<open>User\<close> item of the table. The two time stamps are kept as the instant
  (milliseconds since the epoch) that the stored ISO 8601 string denotes.\<close>

record User =
  UserId :: string
  WalletId :: string
  Nonce :: string
  CreatedTime :: int
  LastLogin :: int
  Verified :: bool
  ExpiryTime :: int

text \<open>The decoded parts of a JWT. A claim that the program reads with a default or a
  truthiness test (\<open>sub\<close>, \<open>admin\<close>, \<open>refresh\<close>) is optional, as in the decoded JSON.\<close>

record JwtHeader =
  alg :: string
  typ_hdr :: string

record JwtData =
  iss :: string
  sub :: "string option"
  admin :: "bool option"
  refresh :: "bool option"
  aud :: "string list"
  iat :: int
  exp :: int

text \<open>
  A token string. \<open>Jwt h p s\<close> is the string \<open>base64url(JSON h).base64url(JSON p).s\<close>;
  \<open>Opaque s\<close> is any string \<open>s\<close> that does not have this three-part form (the empty
  string included).
\<close>

datatype token = Jwt JwtHeader JwtData string | Opaque string

section \<open>Environment: configuration and external services\<close>

datatype ddb_op = Query | Update | Put

text \<open>
  The environment variables of the functions, and the external services they call:
  \<^item> \<open>ddb_fault op\<close>: the error with which the table rejects an operation, if it does;
    \<open>ddb_errorMessage op\<close>: the \<open>errorMessage\<close> property of its response (normally empty);
  \<^item> \<open>kms_getPublicKey\<close>, \<open>kms_sign\<close>: the signing service, on the message
    \<open>header.payload\<close>; \<open>jws_verify key (h, p) s\<close>: the PS256 check of the JWT library;
  \<^item> \<open>recoverPersonalSignature data signature\<close>: the address recovery of
    \<open>@metamask/eth-sig-util\<close>, which throws on a malformed signature;
  \<^item> \<open>getSecret\<close>: the result of \<open>getSecretByArn\<close> for the Infura secret, as the pair
    (\<open>PROJECT_ID\<close>, \<open>PROJECT_SECRET\<close>); \<open>isAddress\<close>: \<open>ethers.utils.isAddress\<close>.
\<close>

record env =
  LOGIN_PREFIX :: string
  SIGN_PREFIX :: string
  ISSUER :: string
  REFRESH_TOKEN_TIME :: int
  AUTH_TOKEN_TIME :: int
  EXPIRE_USERS_IN_DAYS :: int
  API_RESOURCE :: string
  ddb_fault :: "ddb_op \<Rightarrow> error option"
  ddb_errorMessage :: "ddb_op \<Rightarrow> string"
  kms_getPublicKey :: "error + string"
  kms_sign :: "JwtHeader \<times> JwtData \<Rightarrow> error + string"
  jws_verify :: "string \<Rightarrow> JwtHeader \<times> JwtData \<Rightarrow> string \<Rightarrow> bool"
  recoverPersonalSignature :: "string \<Rightarrow> string \<Rightarrow> error + string"
  getSecret :: "error + string \<times> string"
  isAddress :: "string \<Rightarrow> bool"

text \<open>What one request reads from its surroundings: the clock (milliseconds since the
  epoch), the 16 random bytes of \<open>createNonce\<close> in hexadecimal, and the identifier
  drawn by \<open>createUserId\<close>.\<close>

record runtime =
  now :: int
  randomNonce :: string
  randomId :: string

text \<open>\<open>Number(moment(t).format('X'))\<close>: the Unix time stamp in whole seconds.\<close>

definition unix :: "int \<Rightarrow> int" where
  "unix ms = ms div 1000"

section \<open>The table (DynamoDB)\<close>

text \<open>The table is the list of its items. A query returns the items with the given
  key; \<open>put\<close> replaces the item with the same primary key \<open>UserId\<close>; \<open>update\<close>
  sets \<open>LastLogin\<close> and \<open>Nonce\<close> of the item with the given key. A rejected operation
  changes nothing.\<close>

definition ddb_queryByWalletId :: "env \<Rightarrow> User list \<Rightarrow> string \<Rightarrow> error + User list" where
  "ddb_queryByWalletId e tbl w =
     (case ddb_fault e Query of
        Some err \<Rightarrow> Inl err
      | None \<Rightarrow> Inr (filter (\<lambda>u. WalletId u = w) tbl))"

definition ddb_put :: "env \<Rightarrow> User list \<Rightarrow> User \<Rightarrow> (error + string) \<times> User list" where
  "ddb_put e tbl item =
     (case ddb_fault e Put of
        Some err \<Rightarrow> (Inl err, tbl)
      | None \<Rightarrow> (Inr (ddb_errorMessage e Put),
                 filter (\<lambda>u. UserId u \<noteq> UserId item) tbl @ [item]))"

definition ddb_update :: "env \<Rightarrow> User list \<Rightarrow> string \<Rightarrow> int \<Rightarrow> string \<Rightarrow> (error + string) \<times> User list" where
  "ddb_update e tbl key t n =
     (case ddb_fault e Update of
        Some err \<Rightarrow> (Inl err, tbl)
      | None \<Rightarrow> (Inr (ddb_errorMessage e Update),
                 map (\<lambda>u. if UserId u = key then u\<lparr>LastLogin := t, Nonce := n\<rparr> else u) tbl))"

section \<open>lib/authUtils.js\<close>

definition userExpiry :: "env \<Rightarrow> int" where
  "userExpiry e = (if EXPIRE_USERS_IN_DAYS e = 0 then 36500 else EXPIRE_USERS_IN_DAYS e)"

definition getUserByWalletId :: "env \<Rightarrow> User list \<Rightarrow> string \<Rightarrow> error + User" where
  "getUserByWalletId e tbl walletId =
     rethrow ''Internal getUserByWalletId error''
       (case ddb_queryByWalletId e tbl (toLowerCase walletId) of
          Inl err \<Rightarrow> Inl err
        | Inr users \<Rightarrow>
            (case users of
               [] \<Rightarrow> Inl (ValidationError ''We could not find that walletId. Please create a new user.'')
             | [u] \<Rightarrow> Inr u
             | _ \<Rightarrow> Inl (Error ''More than one UserId exists for the walletId.'' None)))"

definition userExistsByWalletId :: "env \<Rightarrow> User list \<Rightarrow> string \<Rightarrow> error + bool" where
  "userExistsByWalletId e tbl walletId =
     (case getUserByWalletId e tbl walletId of
        Inr u \<Rightarrow> Inr True
      | Inl (ValidationError m) \<Rightarrow> Inr False
      | Inl err \<Rightarrow> Inl (orMessage ''Internal userExistsByWalletId error'' err))"

definition getUserIdByWalletId :: "env \<Rightarrow> User list \<Rightarrow> string \<Rightarrow> error + string" where
  "getUserIdByWalletId e tbl walletId =
     rethrow ''Internal getUserIdByWalletId error''
       (case getUserByWalletId e tbl walletId of Inl err \<Rightarrow> Inl err | Inr u \<Rightarrow> Inr (UserId u))"

definition getUserNonceByWalletId :: "env \<Rightarrow> User list \<Rightarrow> string \<Rightarrow> error + string" where
  "getUserNonceByWalletId e tbl walletId =
     rethrow ''Internal getUserNonceByWalletId error''
       (case getUserByWalletId e tbl walletId of Inl err \<Rightarrow> Inl err | Inr u \<Rightarrow> Inr (Nonce u))"

text \<open>Result of \<open>updateLoginByWalletId\<close>. The login time is \<open>moment().format()\<close>, an
  ISO 8601 string without milliseconds: the instant it denotes is the clock reading cut
  to the whole second.\<close>

record LoginUpdate =
  lu_success :: bool
  lu_loginTime :: int
  lu_nonce :: string

definition updateLoginByWalletId ::
  "env \<Rightarrow> runtime \<Rightarrow> User list \<Rightarrow> string \<Rightarrow> (error + LoginUpdate) \<times> User list" where
  "updateLoginByWalletId e rt tbl walletId =
     (case getUserIdByWalletId e tbl walletId of
        Inl err \<Rightarrow> (Inl (orMessage ''Internal updateLoginByWalletId error'' err), tbl)
      | Inr userId \<Rightarrow>
          (let nonce = randomNonce rt; loginTime = unix (now rt) * 1000 in
           case ddb_update e tbl userId loginTime nonce of
             (Inl err, tbl') \<Rightarrow> (Inl (orMessage ''Internal updateLoginByWalletId error'' err), tbl')
           | (Inr errorMessage, tbl') \<Rightarrow>
               if errorMessage \<noteq> [] then (Inl (Error errorMessage None), tbl')
               else (Inr \<lparr>lu_success = True, lu_loginTime = loginTime, lu_nonce = nonce\<rparr>, tbl')))"

section \<open>lib/web3Utils.js\<close>

text \<open>The module-level variables of web3Utils.js.\<close>

record web3_state =
  projectId :: string
  projectSecret :: string
  skipValidation :: bool

definition ethersSetup :: "env \<Rightarrow> web3_state \<Rightarrow> (error + bool) \<times> web3_state" where
  "ethersSetup e s =
     (if projectId s \<noteq> [] \<and> projectSecret s \<noteq> [] then (Inr True, s)
      else case getSecret e of
        Inl err \<Rightarrow> (Inl (orMessage ''Error getting secret'' err), s)
      | Inr (pid, psec) \<Rightarrow>
          (let s1 = s\<lparr>projectSecret := psec, projectId := pid\<rparr> in
           if pid = [] \<or> psec = [] then (Inl (Error ''Secret data is missing'' None), s1)
           else (Inr True, s1\<lparr>skipValidation := (pid = ''SKIP_VALIDATION'')\<rparr>)))"

definition isValidEthAddress :: "env \<Rightarrow> web3_state \<Rightarrow> string \<Rightarrow> (error + bool) \<times> web3_state" where
  "isValidEthAddress e s walletId =
     (case ethersSetup e s of
        (Inl err, s') \<Rightarrow> (Inl (orMessage ''Internal isValidEthAddress error'' err), s')
      | (Inr ok, s') \<Rightarrow>
          if skipValidation s' then (Inr True, s') else (Inr (isAddress e walletId), s'))"

definition isValidEthSignature :: "env \<Rightarrow> string \<Rightarrow> string \<Rightarrow> string \<Rightarrow> error + bool" where
  "isValidEthSignature e walletId msg signature =
     (let data = ''0x'' @ toHex msg in
      case recoverPersonalSignature e data signature of
        Inl err \<Rightarrow> Inl (orMessage ''Internal isValidSignature error'' err)
      | Inr address \<Rightarrow> Inr (address = walletId))"

section \<open>createUser (lib/authUtils.js)\<close>

record UserCreated =
  cu_success :: bool
  cu_userId :: string
  cu_walletId :: string
  cu_nonce :: string

text \<open>The body of the \<open>try\<close> block of \<open>createUser\<close>; the table is returned as the
  call leaves it.\<close>

definition createUser_try ::
  "env \<Rightarrow> runtime \<Rightarrow> User list \<Rightarrow> string \<Rightarrow> bool \<Rightarrow> string \<Rightarrow> string
     \<Rightarrow> (error + UserCreated) \<times> User list" where
  "createUser_try e rt tbl walletId verify signature signPrefix =
     (if walletId = [] then (Inl (Error ''Missing walletId'' None), tbl)
      else if verify \<and> (signature = [] \<or> signPrefix = [])
        then (Inl (ValidationError ''Signature and signPrefix are required to verify a user''), tbl)
      else case userExistsByWalletId e tbl walletId of
        Inl err \<Rightarrow> (Inl err, tbl)
      | Inr userExists \<Rightarrow>
          if userExists \<and> \<not> verify
            then (Inl (ValidationError ''WalletId belongs to an existing user''), tbl)
          else if verify \<and> \<not> userExists
            then (Inl (ValidationError ''User does not exist to verify''), tbl)
          else (case (if verify
                     then (case getUserNonceByWalletId e tbl walletId of
                             Inl err \<Rightarrow> Inl err | Inr n \<Rightarrow> Inr (signPrefix @ n))
                     else Inr []) of
            Inl err \<Rightarrow> (Inl err, tbl)
          | Inr msg \<Rightarrow>
              (case (if verify then isValidEthSignature e walletId msg signature else Inr False) of
                 Inl err \<Rightarrow> (Inl err, tbl)
               | Inr verified \<Rightarrow>
                   if verify \<and> \<not> verified
                     then (Inl (ValidationError ''Signature is not valid - verification failed''), tbl)
                   else
                     (let expiryTime = (if verified then unix (now rt + userExpiry e * 86400000)
                                        else unix (now rt + 1 * 86400000));
                          nonce = randomNonce rt in
                      case (if userExists then getUserIdByWalletId e tbl walletId
                            else Inr (randomId rt)) of
                        Inl err \<Rightarrow> (Inl err, tbl)
                      | Inr userId \<Rightarrow>
                          (case ddb_put e tbl
                                  \<lparr>UserId = userId, WalletId = toLowerCase walletId, Nonce = nonce,
                                   CreatedTime = now rt, LastLogin = now rt, Verified = verified,
                                   ExpiryTime = expiryTime\<rparr> of
                             (Inl err, tbl') \<Rightarrow> (Inl err, tbl')
                           | (Inr errorMessage, tbl') \<Rightarrow>
                               if errorMessage \<noteq> [] then (Inl (Error errorMessage None), tbl')
                               else (Inr \<lparr>cu_success = True, cu_userId = userId,
                                          cu_walletId = toLowerCase walletId, cu_nonce = nonce\<rparr>,
                                     tbl'))))))"

definition createUser ::
  "env \<Rightarrow> runtime \<Rightarrow> User list \<Rightarrow> string \<Rightarrow> bool \<Rightarrow> string \<Rightarrow> string
     \<Rightarrow> (error + UserCreated) \<times> User list" where
  "createUser e rt tbl walletId verify signature signPrefix =
     (case createUser_try e rt tbl walletId verify signature signPrefix of
        (r, tbl') \<Rightarrow> (rethrow ''Internal createUser error'' r, tbl'))"

section \<open>lib/jwtUtils.js\<close>

definition expTime :: "runtime \<Rightarrow> int \<Rightarrow> int" where
  "expTime rt mins = unix (now rt + mins * 60000)"

text \<open>\<open>getPubKey\<close>: the module variable \<open>pubKey\<close> caches the key in PEM form; the
  function returns the new value of the variable with its result.\<close>

definition pem :: "string \<Rightarrow> string" where
  "pem rawKey = [CHR 0x0A] @ ''-----BEGIN PUBLIC KEY-----'' @ [CHR 0x0A] @ rawKey
                  @ [CHR 0x0A] @ ''-----END PUBLIC KEY-----''"

definition getPubKey :: "env \<Rightarrow> string \<Rightarrow> (error + bool) \<times> string" where
  "getPubKey e pubKey =
     (if pubKey \<noteq> [] then (Inr True, pubKey)
      else case kms_getPublicKey e of
        Inl err \<Rightarrow> (Inl (orMessage ''Internal getPubKey error'' err), pubKey)
      | Inr rawKey \<Rightarrow> (Inr True, pem rawKey))"

definition signMsg :: "env \<Rightarrow> JwtHeader \<times> JwtData \<Rightarrow> error + string" where
  "signMsg e msg = rethrow ''Internal signMsg error'' (kms_sign e msg)"

text \<open>
  Modelled from the spec: \<open>jwt.verify\<close> of the external library \<open>jsonwebtoken\<close>, called
  with the option \<open>algorithms: ['PS256']\<close>. By section 4.3 of the specification,
  verification checks the signature's validity and checks \<open>exp\<close> against the current
  time, failing with an expiry error if it is past; a string that is not a three-part
  token, or names another algorithm, or carries a wrong signature is rejected with the
  library's \<open>JsonWebTokenError\<close>. The current time is the clock in whole seconds, and a
  token is expired from the second \<open>exp\<close> on.
\<close>

datatype jwt_lib_error = LibTokenExpiredError | JsonWebTokenError string

definition jwt_verify :: "env \<Rightarrow> runtime \<Rightarrow> token \<Rightarrow> string \<Rightarrow> jwt_lib_error + JwtData" where
  "jwt_verify e rt tok key =
     (case tok of
        Opaque s \<Rightarrow>
          Inl (JsonWebTokenError (if s = [] then ''jwt must be provided'' else ''jwt malformed''))
      | Jwt h p sg \<Rightarrow>
          if alg h \<noteq> ''PS256'' then Inl (JsonWebTokenError ''invalid algorithm'')
          else if \<not> jws_verify e key (h, p) sg then Inl (JsonWebTokenError ''invalid signature'')
          else if exp p \<le> unix (now rt) then Inl LibTokenExpiredError
          else Inr p)"

definition verifyJwt :: "env \<Rightarrow> runtime \<Rightarrow> string \<Rightarrow> token \<Rightarrow> (error + JwtData) \<times> string" where
  "verifyJwt e rt pubKey tok =
     (case getPubKey e pubKey of
        (Inl err, pk) \<Rightarrow> (Inl (orMessage ''Internal verifyJwt error'' err), pk)
      | (Inr ok, pk) \<Rightarrow>
          (case jwt_verify e rt tok pk of
             Inl LibTokenExpiredError \<Rightarrow> (Inl TokenExpiredError, pk)
           | Inl (JsonWebTokenError m) \<Rightarrow> (Inl (ValidationError m), pk)
           | Inr decoded \<Rightarrow> (Inr decoded, pk)))"

definition validateAuthToken :: "env \<Rightarrow> runtime \<Rightarrow> string \<Rightarrow> token \<Rightarrow> (error + JwtData) \<times> string" where
  "validateAuthToken e rt pubKey tok =
     (case verifyJwt e rt pubKey tok of
        (Inl err, pk) \<Rightarrow> (Inl (orMessage ''Internal validateAuthToken error'' err), pk)
      | (Inr data, pk) \<Rightarrow>
          if refresh data = Some True then (Inl (ValidationError ''Invalid Auth token''), pk)
          else (Inr data, pk))"

definition createJwt :: "env \<Rightarrow> runtime \<Rightarrow> string \<Rightarrow> bool \<Rightarrow> bool \<Rightarrow> error + token" where
  "createJwt e rt userId isAdmin isRefresh =
     (let headers = \<lparr>alg = ''PS256'', typ_hdr = ''JWT''\<rparr>;
          payload = \<lparr>iss = ISSUER e, sub = Some userId, admin = Some isAdmin,
                     refresh = Some isRefresh, aud = [''nrg''], iat = unix (now rt),
                     exp = (if isRefresh then expTime rt (REFRESH_TOKEN_TIME e)
                            else expTime rt (AUTH_TOKEN_TIME e))\<rparr> in
      case signMsg e (headers, payload) of
        Inl err \<Rightarrow> Inl (orMessage ''Internal createJwt error'' err)
      | Inr signature \<Rightarrow> Inr (Jwt headers payload signature))"

definition createRefreshToken :: "env \<Rightarrow> runtime \<Rightarrow> string \<Rightarrow> error + token" where
  "createRefreshToken e rt userId =
     (if userId = [] then Inl (Error ''Missing userId parameter'' None)
      else createJwt e rt userId False True)"

definition createAuthToken :: "env \<Rightarrow> runtime \<Rightarrow> string \<Rightarrow> bool \<Rightarrow> error + token" where
  "createAuthToken e rt userId isAdmin =
     (if userId = [] then Inl (Error ''Missing userId parameter'' None)
      else createJwt e rt userId isAdmin False)"

text \<open>
  Cookies. A \<open>Set-Cookie\<close> string made by \<open>cookie.serialize\<close> is kept as the record of
  its name, value and options. A \<open>Cookie\<close> request header is the list of its
  \<open>name=value\<close> pairs; \<open>cookie.parse\<close> keeps the first pair of each name, as
  \<open>map_of\<close> does. \<open>sent c\<close> is the header a client sends back for the cookie \<open>c\<close>.
\<close>

record SetCookie =
  ck_name :: string
  ck_value :: token
  httpOnly :: bool
  sameSite :: bool
  domain :: string
  maxAge :: int
  secure :: bool
  path :: string

type_synonym cookie_header = "(string \<times> token) list"

definition sent :: "SetCookie \<Rightarrow> cookie_header" where
  "sent c = [(ck_name c, ck_value c)]"

definition createRefreshCookie :: "env \<Rightarrow> runtime \<Rightarrow> string \<Rightarrow> error + SetCookie" where
  "createRefreshCookie e rt userId =
     (case createRefreshToken e rt userId of
        Inl err \<Rightarrow> Inl (orMessage ''Internal createRefreshCookie error'' err)
      | Inr refreshToken \<Rightarrow>
          Inr \<lparr>ck_name = ''token'', ck_value = refreshToken, httpOnly = True, sameSite = True,
               domain = ISSUER e, maxAge = REFRESH_TOKEN_TIME e * 60, secure = True,
               path = ''/''\<rparr>)"

definition createLogoutCookie :: "env \<Rightarrow> SetCookie" where
  "createLogoutCookie e =
     \<lparr>ck_name = ''token'', ck_value = Opaque ''logout'', httpOnly = True, sameSite = True,
      domain = ISSUER e, maxAge = 0, secure = True, path = ''/''\<rparr>"

text \<open>\<open>validateRefreshCookie\<close> returns the \<open>sub\<close> claim as \<open>userId\<close>.\<close>

definition validateRefreshCookie ::
  "env \<Rightarrow> runtime \<Rightarrow> string \<Rightarrow> cookie_header \<Rightarrow> (error + string option) \<times> string" where
  "validateRefreshCookie e rt pubKey cookieStr =
     (case map_of cookieStr ''token'' of
        None \<Rightarrow> (Inl (ValidationError ''Not our cookie''), pubKey)
      | Some tok \<Rightarrow>
          if tok = Opaque [] then (Inl (ValidationError ''Not our cookie''), pubKey)
          else (case verifyJwt e rt pubKey tok of
                  (Inl err, pk) \<Rightarrow> (Inl (orMessage ''Internal validateRefreshCookie error'' err), pk)
                | (Inr data, pk) \<Rightarrow>
                    if refresh data \<noteq> Some True
                      then (Inl (ValidationError ''Invalid refresh token''), pk)
                    else (Inr (sub data), pk)))"

section \<open>The request handlers\<close>

text \<open>
  The \<open>catch\<close> block of the handlers:
  \<open>const { message, statusCode = 500 } = err\<close>, then \<open>throw new ApiError(...)\<close>. The
  login, refresh-token and logout handlers replace the status code 400 by 401
  (\<open>authCatch\<close>); the other handlers pass the status code on (\<open>plainCatch\<close>).
\<close>

definition statusCodeOr500 :: "error \<Rightarrow> int" where
  "statusCodeOr500 err = (case err_statusCode err of None \<Rightarrow> 500 | Some c \<Rightarrow> c)"

definition authCatch :: "error \<Rightarrow> string \<Rightarrow> ApiError" where
  "authCatch err rid =
     (let statusCode = statusCodeOr500 err;
          returnCode = (if statusCode = 400 then 401 else statusCode)
      in newApiError (err_message err) returnCode rid)"

definition plainCatch :: "error \<Rightarrow> string \<Rightarrow> ApiError" where
  "plainCatch err rid = newApiError (err_message err) (statusCodeOr500 err) rid"

subsection \<open>login/index.js\<close>

record LoginResult =
  lr_success :: bool
  lr_userId :: string
  lr_authToken :: token
  lr_requestId :: string
  lr_cookie :: SetCookie

definition login_try ::
  "env \<Rightarrow> runtime \<Rightarrow> User list \<Rightarrow> string \<Rightarrow> string \<Rightarrow> string
     \<Rightarrow> (error + LoginResult) \<times> User list" where
  "login_try e rt tbl walletId signature rid =
     (if LOGIN_PREFIX e = [] then (Inl (Error ''Missing env variable'' None), tbl)
      else if walletId = [] then (Inl (ValidationError ''Missing walletId''), tbl)
      else if signature = [] then (Inl (ValidationError ''Missing signature''), tbl)
      else case getUserByWalletId e tbl walletId of
        Inl err \<Rightarrow> (Inl err, tbl)
      | Inr u \<Rightarrow>
          if \<not> Verified u then (Inl (ValidationError ''User account is not verified''), tbl)
          else
            (let msg = LOGIN_PREFIX e @ Nonce u in
             case isValidEthSignature e walletId msg signature of
               Inl err \<Rightarrow> (Inl err, tbl)
             | Inr isValid \<Rightarrow>
                 if \<not> isValid then (Inl (ValidationError ''Invalid signature, access denied''), tbl)
                 else
                   (case updateLoginByWalletId e rt tbl walletId of
                      (Inl err, tbl') \<Rightarrow> (Inl err, tbl')
                    | (Inr update, tbl') \<Rightarrow>
                        (case createAuthToken e rt (UserId u) False of
                           Inl err \<Rightarrow> (Inl err, tbl')
                         | Inr auth \<Rightarrow>
                             (case createRefreshCookie e rt (UserId u) of
                                Inl err \<Rightarrow> (Inl err, tbl')
                              | Inr refreshCookie \<Rightarrow>
                                  (Inr \<lparr>lr_success = True, lr_userId = UserId u,
                                        lr_authToken = auth, lr_requestId = rid,
                                        lr_cookie = refreshCookie\<rparr>, tbl'))))))"

definition login_handler ::
  "env \<Rightarrow> runtime \<Rightarrow> User list \<Rightarrow> string \<Rightarrow> string \<Rightarrow> string
     \<Rightarrow> (ApiError + LoginResult) \<times> User list" where
  "login_handler e rt tbl walletId signature rid =
     (case login_try e rt tbl walletId signature rid of
        (Inl err, tbl') \<Rightarrow> (Inl (authCatch err rid), tbl')
      | (Inr result, tbl') \<Rightarrow> (Inr result, tbl'))"

subsection \<open>refresh-token/index.js\<close>

record RefreshResult =
  rr_success :: bool
  rr_userId :: string
  rr_authToken :: token
  rr_requestId :: string
  rr_cookie :: SetCookie

definition refresh_try ::
  "env \<Rightarrow> runtime \<Rightarrow> string \<Rightarrow> cookie_header \<Rightarrow> string \<Rightarrow> (error + RefreshResult) \<times> string" where
  "refresh_try e rt pubKey cookieStr rid =
     (if cookieStr = [] then (Inl (ValidationError ''Missing cookie''), pubKey)
      else case validateRefreshCookie e rt pubKey cookieStr of
        (Inl err, pk) \<Rightarrow> (Inl err, pk)
      | (Inr None, pk) \<Rightarrow> (Inl (Error ''Error getting userId from token'' None), pk)
      | (Inr (Some userId), pk) \<Rightarrow>
          if userId = [] then (Inl (Error ''Error getting userId from token'' None), pk)
          else
            (case createAuthToken e rt userId False of
               Inl err \<Rightarrow> (Inl err, pk)
             | Inr auth \<Rightarrow>
                 (case createRefreshCookie e rt userId of
                    Inl err \<Rightarrow> (Inl err, pk)
                  | Inr refreshCookie \<Rightarrow>
                      (Inr \<lparr>rr_success = True, rr_userId = userId, rr_authToken = auth,
                            rr_requestId = rid, rr_cookie = refreshCookie\<rparr>, pk))))"

definition refresh_handler ::
  "env \<Rightarrow> runtime \<Rightarrow> string \<Rightarrow> cookie_header \<Rightarrow> string \<Rightarrow> (ApiError + RefreshResult) \<times> string" where
  "refresh_handler e rt pubKey cookieStr rid =
     (case refresh_try e rt pubKey cookieStr rid of
        (Inl err, pk) \<Rightarrow> (Inl (authCatch err rid), pk)
      | (Inr result, pk) \<Rightarrow> (Inr result, pk))"

subsection \<open>logout/index.js\<close>

record LogoutResult =
  lo_success :: bool
  lo_userId :: string
  lo_requestId :: string
  lo_cookie :: SetCookie

definition logout_try ::
  "env \<Rightarrow> runtime \<Rightarrow> string \<Rightarrow> cookie_header \<Rightarrow> string \<Rightarrow> (error + LogoutResult) \<times> string" where
  "logout_try e rt pubKey cookieStr rid =
     (if cookieStr = [] then (Inl (ValidationError ''Missing cookie''), pubKey)
      else case validateRefreshCookie e rt pubKey cookieStr of
        (Inl err, pk) \<Rightarrow> (Inl err, pk)
      | (Inr None, pk) \<Rightarrow> (Inl (Error ''Error getting userId from token'' None), pk)
      | (Inr (Some userId), pk) \<Rightarrow>
          if userId = [] then (Inl (Error ''Error getting userId from token'' None), pk)
          else (Inr \<lparr>lo_success = True, lo_userId = userId, lo_requestId = rid,
                      lo_cookie = createLogoutCookie e\<rparr>, pk))"

definition logout_handler ::
  "env \<Rightarrow> runtime \<Rightarrow> string \<Rightarrow> cookie_header \<Rightarrow> string \<Rightarrow> (ApiError + LogoutResult) \<times> string" where
  "logout_handler e rt pubKey cookieStr rid =
     (case logout_try e rt pubKey cookieStr rid of
        (Inl err, pk) \<Rightarrow> (Inl (authCatch err rid), pk)
      | (Inr result, pk) \<Rightarrow> (Inr result, pk))"

subsection \<open>get-nonce/index.js\<close>

record NonceResult =
  gn_success :: bool
  gn_isLogin :: bool
  gn_nonce :: string
  gn_userId :: string
  gn_verified :: bool

definition getNonce_try :: "env \<Rightarrow> User list \<Rightarrow> string \<Rightarrow> string \<Rightarrow> error + NonceResult" where
  "getNonce_try e tbl walletId login =
     (let isLogin = (login = ''true'') in
      if walletId = [] then Inl (ValidationError ''Missing walletId'')
      else case getUserByWalletId e tbl walletId of
        Inl err \<Rightarrow> Inl err
      | Inr user \<Rightarrow>
          Inr \<lparr>gn_success = True, gn_isLogin = isLogin,
               gn_nonce = (if isLogin then LOGIN_PREFIX e @ Nonce user
                           else SIGN_PREFIX e @ Nonce user),
               gn_userId = UserId user, gn_verified = Verified user\<rparr>)"

definition getNonce_handler ::
  "env \<Rightarrow> User list \<Rightarrow> string \<Rightarrow> string \<Rightarrow> string \<Rightarrow> ApiError + NonceResult" where
  "getNonce_handler e tbl walletId login rid =
     (case getNonce_try e tbl walletId login of
        Inl err \<Rightarrow> Inl (plainCatch err rid)
      | Inr result \<Rightarrow> Inr result)"

subsection \<open>create-user/index.js\<close>

record CreateUserResult =
  cr_success :: bool
  cr_userId :: string
  cr_walletId :: string
  cr_nonce :: string
  cr_requestId :: string

definition createUser_handler_try ::
  "env \<Rightarrow> runtime \<Rightarrow> web3_state \<Rightarrow> User list \<Rightarrow> string \<Rightarrow> bool \<Rightarrow> string \<Rightarrow> string
     \<Rightarrow> (error + CreateUserResult) \<times> web3_state \<times> User list" where
  "createUser_handler_try e rt w3 tbl walletId verify signature rid =
     (if walletId = [] then (Inl (ValidationError ''Missing walletId''), w3, tbl)
      else case isValidEthAddress e w3 walletId of
        (Inl err, w3') \<Rightarrow> (Inl err, w3', tbl)
      | (Inr validAddress, w3') \<Rightarrow>
          if \<not> validAddress then (Inl (ValidationError ''Invalid wallet Id''), w3', tbl)
          else
            (case createUser e rt tbl walletId verify signature (SIGN_PREFIX e) of
               (Inl err, tbl') \<Rightarrow> (Inl err, w3', tbl')
             | (Inr user, tbl') \<Rightarrow>
                 (Inr \<lparr>cr_success = True, cr_userId = cu_userId user,
                       cr_walletId = cu_walletId user,
                       cr_nonce = SIGN_PREFIX e @ cu_nonce user, cr_requestId = rid\<rparr>,
                  w3', tbl')))"

definition createUser_handler ::
  "env \<Rightarrow> runtime \<Rightarrow> web3_state \<Rightarrow> User list \<Rightarrow> string \<Rightarrow> bool \<Rightarrow> string \<Rightarrow> string
     \<Rightarrow> (ApiError + CreateUserResult) \<times> web3_state \<times> User list" where
  "createUser_handler e rt w3 tbl walletId verify signature rid =
     (case createUser_handler_try e rt w3 tbl walletId verify signature rid of
        (Inl err, st) \<Rightarrow> (Inl (plainCatch err rid), st)
      | (Inr result, st) \<Rightarrow> (Inr result, st))"

subsection \<open>authorizer/index.js\<close>

text \<open>The IAM policy returned to the gateway, with its one statement flattened.\<close>

record Policy =
  principalId :: "string option"
  Version :: string
  Action :: string
  Effect :: string
  Resource :: string
  isAdmin :: bool


section \<open>An example deployment\<close>

text \<open>
  A concrete environment with the default options of \<open>config/template.ts\<close>, used to
  run the definitions: the table answers, the signing service returns the signature
  \<open>c2ln\<close> that the library accepts under the key \<open>MIIB\<close>, and the signature
  \<open>0xa11ce\<close> recovers the address \<open>example_wallet\<close> (any other one the zero address).
\<close>

definition example_wallet :: string where
  "example_wallet = ''0x5aaeb6053f3e94c9b9a09f33669435e7ef1beaed''"

definition example_checksummed :: string where
  "example_checksummed = ''0x5aAeb6053F3E94C9b9A09f33669435E7Ef1BeAed''"

definition example_env :: env where
  "example_env =
     \<lparr>LOGIN_PREFIX = ''Login to My Demo by signing this one-time key: '',
      SIGN_PREFIX = ''Sign the one-time key to continue: '',
      ISSUER = ''example.com'',
      REFRESH_TOKEN_TIME = 60,
      AUTH_TOKEN_TIME = 5,
      EXPIRE_USERS_IN_DAYS = 7,
      API_RESOURCE = ''arn:aws:execute-api:*'',
      ddb_fault = (\<lambda>op. None),
      ddb_errorMessage = (\<lambda>op. []),
      kms_getPublicKey = Inr ''MIIB'',
      kms_sign = (\<lambda>m. Inr ''c2ln''),
      jws_verify = (\<lambda>key m s. key = pem ''MIIB'' \<and> s = ''c2ln''),
      recoverPersonalSignature =
        (\<lambda>data signature. if signature = ''0xa11ce'' then Inr example_wallet
                           else Inr ''0x0000000000000000000000000000000000000000''),
      getSecret = Inr (''SKIP_VALIDATION'', ''SKIP_VALIDATION''),
      isAddress = (\<lambda>w. True)\<rparr>"

definition example_rt :: runtime where
  "example_rt = \<lparr>now = 1700000000000, randomNonce = ''9f86d081884c7d659a2feaa0c55ad015'',
                  randomId = ''1A2B3C4D5E6F70''\<rparr>"

definition example_user :: User where
  "example_user =
     \<lparr>UserId = ''0F1E2D3C4B5A69'', WalletId = example_wallet,
      Nonce = ''000102030405060708090a0b0c0d0e0f'', CreatedTime = 1699990000000,
      LastLogin = 1699990000000, Verified = False, ExpiryTime = 1700076400\<rparr>"

text \<open>The record of \<open>example_user\<close> once its wallet has been verified at the time of
  \<open>example_rt\<close> (expiry seven days later).\<close>

definition example_verified :: User where
  "example_verified =
     \<lparr>UserId = ''0F1E2D3C4B5A69'', WalletId = example_wallet,
      Nonce = ''9f86d081884c7d659a2feaa0c55ad015'', CreatedTime = 1700000000000,
      LastLogin = 1700000000000, Verified = True, ExpiryTime = 1700604800\<rparr>"

text \<open>The tokens that \<open>example_env\<close> issues for the user at the time of \<open>example_rt\<close>,
  and the refresh cookie.\<close>

definition example_header :: JwtHeader where
  "example_header = \<lparr>alg = ''PS256'', typ_hdr = ''JWT''\<rparr>"

definition example_auth_data :: JwtData where
  "example_auth_data =
     \<lparr>iss = ''example.com'', sub = Some ''0F1E2D3C4B5A69'', admin = Some False,
      refresh = Some False, aud = [''nrg''], iat = 1700000000, exp = 1700000300\<rparr>"

definition example_refresh_data :: JwtData where
  "example_refresh_data =
     \<lparr>iss = ''example.com'', sub = Some ''0F1E2D3C4B5A69'', admin = Some False,
      refresh = Some True, aud = [''nrg''], iat = 1700000000, exp = 1700003600\<rparr>"

definition example_cookie :: SetCookie where
  "example_cookie =
     \<lparr>ck_name = ''token'', ck_value = Jwt example_header example_refresh_data ''c2ln'',
      httpOnly = True, sameSite = True, domain = ''example.com'', maxAge = 3600,
      secure = True, path = ''/''\<rparr>"

text \<open>Two later clock readings within one second, 400 ms apart, and the claims of the
  access token issued at either of them.\<close>

definition example_rt1 :: runtime where
  "example_rt1 = \<lparr>now = 1700000001000, randomNonce = ''9f86d081884c7d659a2feaa0c55ad015'',
                   randomId = ''1A2B3C4D5E6F70''\<rparr>"

definition example_rt2 :: runtime where
  "example_rt2 = \<lparr>now = 1700000001400, randomNonce = ''9f86d081884c7d659a2feaa0c55ad015'',
                   randomId = ''1A2B3C4D5E6F70''\<rparr>"

definition example_auth_data1 :: JwtData where
  "example_auth_data1 =
     \<lparr>iss = ''example.com'', sub = Some ''0F1E2D3C4B5A69'', admin = Some False,
      refresh = Some False, aud = [''nrg''], iat = 1700000001, exp = 1700000301\<rparr>"

text \<open>The same deployment with a table that rejects every operation with an error
  whose \<open>statusCode\<close> is 403.\<close>

definition example_env_403 :: env where
  "example_env_403 = example_env\<lparr>ddb_fault := (\<lambda>op. Some (Error ''Forbidden'' (Some 403)))\<rparr>"

text \<open>The second pair of tokens, issued by a refresh at either of these two readings,
  and a clock reading at the expiry of the first refresh token.\<close>

definition example_refresh_data1 :: JwtData where
  "example_refresh_data1 =
     \<lparr>iss = ''example.com'', sub = Some ''0F1E2D3C4B5A69'', admin = Some False,
      refresh = Some True, aud = [''nrg''], iat = 1700000001, exp = 1700003601\<rparr>"

definition example_refreshed :: "string \<Rightarrow> RefreshResult" where
  "example_refreshed rid =
     \<lparr>rr_success = True, rr_userId = ''0F1E2D3C4B5A69'',
      rr_authToken = Jwt example_header example_auth_data1 ''c2ln'', rr_requestId = rid,
      rr_cookie = \<lparr>ck_name = ''token'',
                    ck_value = Jwt example_header example_refresh_data1 ''c2ln'',
                    httpOnly = True, sameSite = True, domain = ''example.com'', maxAge = 3600,
                    secure = True, path = ''/''\<rparr>\<rparr>"

definition example_rt_late :: runtime where
  "example_rt_late = \<lparr>now = 1700003600000, randomNonce = ''9f86d081884c7d659a2feaa0c55ad015'',
                      randomId = ''1A2B3C4D5E6F70''\<rparr>"

text \<open>The same deployment with an address recovery that throws on every signature but
  \<open>0xa11ce\<close>, as the library does on a signature of the wrong length.\<close>

definition example_env_throw :: env where
  "example_env_throw =
     example_env\<lparr>recoverPersonalSignature :=
       (\<lambda>data signature. if signature = ''0xa11ce'' then Inr example_wallet
                          else Inl (Error ''Invalid signature length'' None))\<rparr>"

section \<open>Lemmas\<close>

lemma toLowerCase_char_idem: "toLowerCase_char (toLowerCase_char c) = toLowerCase_char c"
  by (simp add: toLowerCase_char_def Let_def)

lemma toLowerCase_idem: "toLowerCase (toLowerCase s) = toLowerCase s"
  by (simp add: toLowerCase_def toLowerCase_char_idem)

text \<open>
  C9. Looking a user up by wallet does not depend on the letter case of the wallet
  identifier: \<open>getUserByWalletId(w)\<close> and \<open>getUserByWalletId(w.toLowerCase())\<close> return
  the same record or fail with the same error, on every table and every environment;
  so does the get-nonce handler, whose result does not repeat the wallet identifier.
\<close>

theorem getUserByWalletId_case_insensitive:
  "getUserByWalletId e tbl (toLowerCase w) = getUserByWalletId e tbl w
   \<and> getNonce_handler e tbl (toLowerCase w) login rid = getNonce_handler e tbl w login rid"
proof -
  have 1: "getUserByWalletId e tbl (toLowerCase w) = getUserByWalletId e tbl w"
    by (simp add: getUserByWalletId_def toLowerCase_idem)
  have 2: "toLowerCase w = [] \<longleftrightarrow> w = []"
    by (simp add: toLowerCase_def)
  have "getNonce_handler e tbl (toLowerCase w) login rid = getNonce_handler e tbl w login rid"
    unfolding getNonce_handler_def getNonce_try_def 1 2 by (rule refl)
  with 1 show ?thesis by (rule conjI)
qed

subsection \<open>Looking a user up\<close>

lemma getUserByWalletId_Inr:
  "getUserByWalletId e tbl w = Inr u \<Longrightarrow>
     ddb_fault e Query = None \<and> filter (\<lambda>u. WalletId u = toLowerCase w) tbl = [u]"
  by (auto simp: getUserByWalletId_def ddb_queryByWalletId_def rethrow_def
           split: option.splits list.splits sum.splits)

lemma getUserByWalletId_single:
  "ddb_fault e Query = None \<Longrightarrow> filter (\<lambda>u. WalletId u = toLowerCase w) tbl = [u]
   \<Longrightarrow> getUserByWalletId e tbl w = Inr u"
  by (simp add: getUserByWalletId_def ddb_queryByWalletId_def rethrow_def)

lemma getUserByWalletId_none:
  "ddb_fault e Query = None \<Longrightarrow> filter (\<lambda>u. WalletId u = toLowerCase w) tbl = []
   \<Longrightarrow> getUserByWalletId e tbl w =
         Inl (ValidationError ''We could not find that walletId. Please create a new user.'')"
  by (simp add: getUserByWalletId_def ddb_queryByWalletId_def rethrow_def)

lemma getUserByWalletId_unverified:
  assumes "u \<in> set tbl" "WalletId u = toLowerCase w" "\<not> Verified u"
    and "getUserByWalletId e tbl w = Inr v"
  shows "\<not> Verified v"
proof -
  from assms(4) have f: "filter (\<lambda>u. WalletId u = toLowerCase w) tbl = [v]"
    by (simp add: getUserByWalletId_Inr)
  from assms(1,2) have "u \<in> set (filter (\<lambda>u. WalletId u = toLowerCase w) tbl)" by simp
  with f have "u = v" by simp
  with assms(3) show ?thesis by simp
qed

lemma lower_checksummed: "toLowerCase example_checksummed = example_wallet"
  by code_simp

subsection \<open>Login\<close>

text \<open>
  C1. If the table holds a record for the wallet (its \<open>WalletId\<close> is the lower-cased
  wallet) whose \<open>Verified\<close> flag is false, the login handler fails with an error and
  leaves the table as it was: for every signature, every environment (so also when the
  address recovered from the signature is the wallet itself), every clock and every
  request id; it never returns a result with tokens.
\<close>

theorem login_unverified_fails:
  assumes "u \<in> set tbl" and "WalletId u = toLowerCase w" and "\<not> Verified u"
  shows "\<exists>err. login_handler e rt tbl w sg rid = (Inl err, tbl)"
proof (cases "getUserByWalletId e tbl w")
  case (Inl err)
  then show ?thesis by (simp add: login_handler_def login_try_def)
next
  case (Inr v)
  with assms have "\<not> Verified v" by (simp add: getUserByWalletId_unverified)
  with Inr show ?thesis by (simp add: login_handler_def login_try_def)
qed

theorem login_unverified_fails_witness:
  "example_user \<in> set [example_user] \<and> WalletId example_user = toLowerCase example_checksummed
   \<and> \<not> Verified example_user
   \<and> (\<exists>err. login_handler example_env example_rt [example_user] example_checksummed
                ''0xa11ce'' ''req-1'' = (Inl err, [example_user]))"
proof -
  have 1: "example_user \<in> set [example_user]" by simp
  have 2: "WalletId example_user = toLowerCase example_checksummed"
    by (simp add: lower_checksummed example_user_def)
  have 3: "\<not> Verified example_user" by (simp add: example_user_def)
  from login_unverified_fails [OF 1 2 3] 1 2 3 show ?thesis by blast
qed

subsection \<open>get-nonce\<close>

text \<open>
  C7. While the table answers queries: for a wallet with no record, get-nonce fails with
  status code 400, and for a non-empty wallet identifier the error is the not-found
  error of the lookup; for a (non-empty) wallet with a record, get-nonce succeeds and
  returns the stored nonce behind the login prefix when \<open>login\<close> is the string
  \<open>true\<close> and behind the sign prefix otherwise. The prefix is a function of the
  \<open>login\<close> parameter alone: no field of the stored record enters it.
\<close>

theorem getNonce_found_or_not:
  assumes "ddb_fault e Query = None"
  shows "(filter (\<lambda>x. WalletId x = toLowerCase w) tbl = [] \<longrightarrow>
            (\<exists>m. getNonce_handler e tbl w login rid =
                    Inl \<lparr>success = False, statusCode = 400, message = m, requestId = rid\<rparr>
                \<and> (w \<noteq> [] \<longrightarrow> m = ''Validation Error: We could not find that walletId. Please create a new user.'')))
       \<and> (\<forall>u. w \<noteq> [] \<and> filter (\<lambda>x. WalletId x = toLowerCase w) tbl = [u] \<longrightarrow>
            getNonce_handler e tbl w login rid =
              Inr \<lparr>gn_success = True, gn_isLogin = (login = ''true''),
                   gn_nonce = (if login = ''true'' then LOGIN_PREFIX e else SIGN_PREFIX e) @ Nonce u,
                   gn_userId = UserId u, gn_verified = Verified u\<rparr>)"
  using assms
  by (auto simp: getNonce_handler_def getNonce_try_def getUserByWalletId_single
        getUserByWalletId_none plainCatch_def statusCodeOr500_def newApiError_def)

lemma lower_wallet: "toLowerCase example_wallet = example_wallet"
  by code_simp

lemma example_filter:
  "filter (\<lambda>x. WalletId x = toLowerCase example_wallet) [example_user] = [example_user]"
  by (simp add: lower_wallet example_user_def)

lemma example_query_ok: "ddb_fault example_env Query = None"
  by (simp add: example_env_def)

theorem getNonce_found_or_not_witness:
  "ddb_fault example_env Query = None
   \<and> filter (\<lambda>x. WalletId x = toLowerCase example_wallet) [example_user] = [example_user]
   \<and> getNonce_handler example_env [example_user] example_wallet ''true'' ''req-1'' =
        Inr \<lparr>gn_success = True, gn_isLogin = True,
             gn_nonce = LOGIN_PREFIX example_env @ Nonce example_user,
             gn_userId = UserId example_user, gn_verified = False\<rparr>
   \<and> getNonce_handler example_env [] example_wallet ''true'' ''req-1'' =
        Inl \<lparr>success = False, statusCode = 400,
             message = ''Validation Error: We could not find that walletId. Please create a new user.'',
             requestId = ''req-1''\<rparr>"
proof -
  have w: "example_wallet \<noteq> []" by (simp add: example_wallet_def)
  have v: "Verified example_user = False" by (simp add: example_user_def)
  from getNonce_found_or_not [OF example_query_ok, of example_wallet "[example_user]" "''true''" "''req-1''"]
    getNonce_found_or_not [OF example_query_ok, of example_wallet "[]" "''true''" "''req-1''"]
    example_query_ok example_filter w v
  show ?thesis by auto
qed

subsection \<open>createUser\<close>

lemma userExists_Inr_user:
  "getUserByWalletId e tbl w = Inr u \<Longrightarrow> userExistsByWalletId e tbl w = Inr True"
  by (simp add: userExistsByWalletId_def)

lemma userExists_True:
  "userExistsByWalletId e tbl w = Inr True \<Longrightarrow> \<exists>u. getUserByWalletId e tbl w = Inr u"
  by (auto simp: userExistsByWalletId_def split: sum.splits error.splits)

lemma getUserNonce_Inr:
  "getUserByWalletId e tbl w = Inr u \<Longrightarrow> getUserNonceByWalletId e tbl w = Inr (Nonce u)"
  by (simp add: getUserNonceByWalletId_def rethrow_def)

lemma getUserId_Inr:
  "getUserByWalletId e tbl w = Inr u \<Longrightarrow> getUserIdByWalletId e tbl w = Inr (UserId u)"
  by (simp add: getUserIdByWalletId_def rethrow_def)

text \<open>With \<open>verify = true\<close>, unless the signature check returns true for the stored
  nonce of an existing record, the \<open>try\<close> block ends in an error before the \<open>put\<close>.\<close>

lemma createUser_try_verify_no_write:
  assumes "\<forall>u. getUserByWalletId e tbl w = Inr u \<longrightarrow>
                isValidEthSignature e w (prefix @ Nonce u) sg \<noteq> Inr True"
  shows "\<exists>err. createUser_try e rt tbl w True sg prefix = (Inl err, tbl)"
proof (cases "userExistsByWalletId e tbl w")
  case (Inl err)
  then show ?thesis by (simp add: createUser_try_def)
next
  case (Inr ex)
  show ?thesis
  proof (cases ex)
    case False
    with Inr show ?thesis by (simp add: createUser_try_def)
  next
    case True
    with Inr have ex: "userExistsByWalletId e tbl w = Inr True" by simp
    have "\<exists>u. getUserByWalletId e tbl w = Inr u" by (rule userExists_True [OF ex])
    then obtain u where u: "getUserByWalletId e tbl w = Inr u" by blast
    with assms have nv: "isValidEthSignature e w (prefix @ Nonce u) sg \<noteq> Inr True" by simp
    show ?thesis
    proof (cases "isValidEthSignature e w (prefix @ Nonce u) sg")
      case (Inl err)
      with ex u show ?thesis by (simp add: createUser_try_def getUserNonce_Inr)
    next
      case (Inr b)
      with nv have "\<not> b" by auto
      with Inr ex u show ?thesis
        by (simp add: createUser_try_def getUserNonce_Inr)
    qed
  qed
qed

lemma createUser_verify_no_write:
  assumes "\<forall>u. getUserByWalletId e tbl w = Inr u \<longrightarrow>
                isValidEthSignature e w (prefix @ Nonce u) sg \<noteq> Inr True"
  shows "\<exists>err. createUser e rt tbl w True sg prefix = (Inl err, tbl)"
proof -
  from createUser_try_verify_no_write [OF assms]
  obtain err where "createUser_try e rt tbl w True sg prefix = (Inl err, tbl)" by blast
  then show ?thesis by (simp add: createUser_def rethrow_def)
qed

lemma createUser_invalid_signature:
  assumes "w \<noteq> []" "sg \<noteq> []" "prefix \<noteq> []"
    and "getUserByWalletId e tbl w = Inr u"
    and "isValidEthSignature e w (prefix @ Nonce u) sg = Inr False"
  shows "createUser e rt tbl w True sg prefix =
           (Inl (ValidationError ''Signature is not valid - verification failed''), tbl)"
  using assms
  by (simp add: createUser_def createUser_try_def rethrow_def userExists_Inr_user getUserNonce_Inr)

lemma createUser_verify_absent:
  assumes "w \<noteq> []" "sg \<noteq> []" "prefix \<noteq> []"
    and "ddb_fault e Query = None" and "filter (\<lambda>u. WalletId u = toLowerCase w) tbl = []"
  shows "createUser e rt tbl w True sg prefix =
           (Inl (ValidationError ''User does not exist to verify''), tbl)"
  using assms
  by (simp add: createUser_def createUser_try_def rethrow_def userExistsByWalletId_def
        getUserByWalletId_none)

text \<open>The same at the create-user handler, which calls \<open>createUser\<close> with the sign prefix
  of the environment: the request fails and the table is as before.\<close>

lemma createUser_handler_verify_no_write:
  assumes "\<forall>u. getUserByWalletId e tbl w = Inr u \<longrightarrow>
                isValidEthSignature e w (SIGN_PREFIX e @ Nonce u) sg \<noteq> Inr True"
  shows "\<exists>err w3'. createUser_handler e rt w3 tbl w True sg rid = (Inl err, w3', tbl)"
proof -
  from createUser_verify_no_write [OF assms]
  obtain err where "createUser e rt tbl w True sg (SIGN_PREFIX e) = (Inl err, tbl)" by blast
  then show ?thesis
    by (auto simp: createUser_handler_def createUser_handler_try_def split: prod.splits sum.splits)
qed

lemma isValidEthSignature_Inl_message:
  "isValidEthSignature e w m sg = Inl err \<Longrightarrow> orMessage d err = err"
proof -
  assume a: "isValidEthSignature e w m sg = Inl err"
  then obtain err0 where "err = orMessage ''Internal isValidSignature error'' err0"
    by (auto simp: isValidEthSignature_def Let_def split: sum.splits)
  then show ?thesis by (cases err0) auto
qed

lemma createUser_signature_throws:
  assumes "w \<noteq> []" "sg \<noteq> []" "prefix \<noteq> []"
    and "getUserByWalletId e tbl w = Inr u"
    and "isValidEthSignature e w (prefix @ Nonce u) sg = Inl err"
  shows "createUser e rt tbl w True sg prefix = (Inl err, tbl)"
  using assms isValidEthSignature_Inl_message [OF assms(5), of "''Internal createUser error''"]
  by (simp add: createUser_def createUser_try_def rethrow_def userExists_Inr_user getUserNonce_Inr)

text \<open>
  C4. Let \<open>createUser\<close> be called with \<open>verify = true\<close>.
  \<^item> If the wallet, the signature and the sign prefix are not empty, the table answers
    queries, the wallet has a record \<open>u\<close> and the signature check against the prefix
    followed by the stored nonce of \<open>u\<close> returns false, the call fails with the
    validation error \<open>Signature is not valid - verification failed\<close> and the table it
    leaves is the table it found: no record is written, so every field of \<open>u\<close> is as
    before.
  \<^item> Under the same conditions, if the wallet has no record, the call fails with the
    validation error \<open>User does not exist to verify\<close> and the table is unchanged: no
    record is created.
  \<^item> Under the same conditions, if the wallet has a record \<open>u\<close> and the signature check
    throws (the address recovery rejects a malformed signature), the call fails with
    the error of the check, not with the validation error, and the table is unchanged.
  \<^item> For all inputs, whenever the check does not return true for an existing record (it
    returns false, it throws, a parameter is missing, the query fails or there is no
    record), the call fails and the table is unchanged.
\<close>

theorem createUser_verify_failure_no_write:
  "(\<forall>u. w \<noteq> [] \<and> sg \<noteq> [] \<and> prefix \<noteq> [] \<and> ddb_fault e Query = None
         \<and> filter (\<lambda>x. WalletId x = toLowerCase w) tbl = [u]
         \<and> isValidEthSignature e w (prefix @ Nonce u) sg = Inr False \<longrightarrow>
      createUser e rt tbl w True sg prefix =
        (Inl (ValidationError ''Signature is not valid - verification failed''), tbl))
   \<and> (w \<noteq> [] \<and> sg \<noteq> [] \<and> prefix \<noteq> [] \<and> ddb_fault e Query = None
         \<and> filter (\<lambda>x. WalletId x = toLowerCase w) tbl = [] \<longrightarrow>
      createUser e rt tbl w True sg prefix =
        (Inl (ValidationError ''User does not exist to verify''), tbl))
   \<and> (\<forall>u err. w \<noteq> [] \<and> sg \<noteq> [] \<and> prefix \<noteq> [] \<and> ddb_fault e Query = None
         \<and> filter (\<lambda>x. WalletId x = toLowerCase w) tbl = [u]
         \<and> isValidEthSignature e w (prefix @ Nonce u) sg = Inl err \<longrightarrow>
      createUser e rt tbl w True sg prefix = (Inl err, tbl))
   \<and> ((\<forall>u. getUserByWalletId e tbl w = Inr u \<longrightarrow>
            isValidEthSignature e w (prefix @ Nonce u) sg \<noteq> Inr True) \<longrightarrow>
      (\<exists>err. createUser e rt tbl w True sg prefix = (Inl err, tbl)))"
proof (intro conjI allI impI)
  fix u
  assume a: "w \<noteq> [] \<and> sg \<noteq> [] \<and> prefix \<noteq> [] \<and> ddb_fault e Query = None
         \<and> filter (\<lambda>x. WalletId x = toLowerCase w) tbl = [u]
         \<and> isValidEthSignature e w (prefix @ Nonce u) sg = Inr False"
  then have "getUserByWalletId e tbl w = Inr u"
    by (simp add: getUserByWalletId_single)
  with a show "createUser e rt tbl w True sg prefix =
              (Inl (ValidationError ''Signature is not valid - verification failed''), tbl)"
    by (simp add: createUser_invalid_signature)
next
  assume "w \<noteq> [] \<and> sg \<noteq> [] \<and> prefix \<noteq> [] \<and> ddb_fault e Query = None
         \<and> filter (\<lambda>x. WalletId x = toLowerCase w) tbl = []"
  then show "createUser e rt tbl w True sg prefix =
              (Inl (ValidationError ''User does not exist to verify''), tbl)"
    by (simp add: createUser_verify_absent)
next
  fix u err
  assume a: "w \<noteq> [] \<and> sg \<noteq> [] \<and> prefix \<noteq> [] \<and> ddb_fault e Query = None
         \<and> filter (\<lambda>x. WalletId x = toLowerCase w) tbl = [u]
         \<and> isValidEthSignature e w (prefix @ Nonce u) sg = Inl err"
  then have a1: "w \<noteq> []" and a2: "sg \<noteq> []" and a3: "prefix \<noteq> []"
    and a5: "isValidEthSignature e w (prefix @ Nonce u) sg = Inl err"
    by simp_all
  from a have g: "getUserByWalletId e tbl w = Inr u"
    by (simp add: getUserByWalletId_single)
  show "createUser e rt tbl w True sg prefix = (Inl err, tbl)"
    by (rule createUser_signature_throws [OF a1 a2 a3 g a5])
next
  assume "\<forall>u. getUserByWalletId e tbl w = Inr u \<longrightarrow>
                 isValidEthSignature e w (prefix @ Nonce u) sg \<noteq> Inr True"
  then show "\<exists>err. createUser e rt tbl w True sg prefix = (Inl err, tbl)"
    by (rule createUser_verify_no_write)
qed

lemma example_bad_signature:
  "isValidEthSignature example_env example_wallet
      (SIGN_PREFIX example_env @ Nonce example_user) ''0xbad'' = Inr False"
  by (simp add: isValidEthSignature_def example_env_def example_wallet_def)

theorem createUser_verify_failure_no_write_witness:
  "example_wallet \<noteq> [] \<and> ''0xbad'' \<noteq> [] \<and> SIGN_PREFIX example_env \<noteq> []
   \<and> ddb_fault example_env Query = None
   \<and> filter (\<lambda>x. WalletId x = toLowerCase example_wallet) [example_user] = [example_user]
   \<and> isValidEthSignature example_env example_wallet
        (SIGN_PREFIX example_env @ Nonce example_user) ''0xbad'' = Inr False
   \<and> createUser example_env example_rt [example_user] example_wallet True ''0xbad''
        (SIGN_PREFIX example_env) =
        (Inl (ValidationError ''Signature is not valid - verification failed''), [example_user])
   \<and> createUser example_env example_rt [] example_wallet True ''0xbad''
        (SIGN_PREFIX example_env) =
        (Inl (ValidationError ''User does not exist to verify''), [])"
proof -
  have 1: "example_wallet \<noteq> []" by (simp add: example_wallet_def)
  have 2: "''0xbad'' \<noteq> []" by simp
  have 3: "SIGN_PREFIX example_env \<noteq> []" by (simp add: example_env_def)
  have 4: "filter (\<lambda>x. WalletId x = toLowerCase example_wallet) [] = []" by simp
  from createUser_verify_failure_no_write [of example_wallet "''0xbad''" "SIGN_PREFIX example_env"
         example_env "[example_user]" example_rt]
  have a: "createUser example_env example_rt [example_user] example_wallet True ''0xbad''
        (SIGN_PREFIX example_env) =
        (Inl (ValidationError ''Signature is not valid - verification failed''), [example_user])"
    using 1 2 3 example_query_ok example_filter example_bad_signature by blast
  from createUser_verify_failure_no_write [of example_wallet "''0xbad''" "SIGN_PREFIX example_env"
         example_env "[]" example_rt]
  have b: "createUser example_env example_rt [] example_wallet True ''0xbad''
        (SIGN_PREFIX example_env) =
        (Inl (ValidationError ''User does not exist to verify''), [])"
    using 1 2 3 example_query_ok 4 by blast
  from a b 1 2 3 example_query_ok example_filter example_bad_signature
  show ?thesis by blast
qed

lemma example_throwing_check:
  "isValidEthSignature example_env_throw example_wallet
      (SIGN_PREFIX example_env_throw @ Nonce example_user) ''0xbad''
     = Inl (Error ''Invalid signature length'' None)"
  by (simp add: isValidEthSignature_def example_env_throw_def example_env_def)

lemma example_createUser_throws:
  "createUser example_env_throw example_rt [example_user] example_wallet True ''0xbad''
      (SIGN_PREFIX example_env_throw)
     = (Inl (Error ''Invalid signature length'' None), [example_user])"
  by code_simp

lemma example_createUser_handler_throws:
  "createUser_handler example_env_throw example_rt
      \<lparr>projectId = [], projectSecret = [], skipValidation = False\<rparr>
      [example_user] example_wallet True ''0xbad'' ''req-1''
     = (Inl \<lparr>success = False, statusCode = 500, message = ''Invalid signature length'',
             requestId = ''req-1''\<rparr>,
        \<lparr>projectId = ''SKIP_VALIDATION'', projectSecret = ''SKIP_VALIDATION'',
         skipValidation = True\<rparr>, [example_user])"
  by code_simp

text \<open>A signature on which the address recovery throws does not verify, yet the call
  with \<open>verify = true\<close> on the existing record fails with the library's plain error
  and not with the validation error; the create-user handler surfaces it with status
  code 500. The table is unchanged.\<close>

theorem createUser_malformed_signature_counterexample:
  "getUserByWalletId example_env_throw [example_user] example_wallet = Inr example_user
   \<and> isValidEthSignature example_env_throw example_wallet
        (SIGN_PREFIX example_env_throw @ Nonce example_user) ''0xbad''
      = Inl (Error ''Invalid signature length'' None)
   \<and> createUser example_env_throw example_rt [example_user] example_wallet True ''0xbad''
        (SIGN_PREFIX example_env_throw)
      = (Inl (Error ''Invalid signature length'' None), [example_user])
   \<and> Error ''Invalid signature length'' None
        \<noteq> ValidationError ''Signature is not valid - verification failed''
   \<and> createUser_handler example_env_throw example_rt
        \<lparr>projectId = [], projectSecret = [], skipValidation = False\<rparr>
        [example_user] example_wallet True ''0xbad'' ''req-1''
      = (Inl \<lparr>success = False, statusCode = 500, message = ''Invalid signature length'',
              requestId = ''req-1''\<rparr>,
         \<lparr>projectId = ''SKIP_VALIDATION'', projectSecret = ''SKIP_VALIDATION'',
          skipValidation = True\<rparr>, [example_user])"
proof -
  have q: "ddb_fault example_env_throw Query = None"
    by (simp add: example_env_throw_def example_env_def)
  from q example_filter
  have g: "getUserByWalletId example_env_throw [example_user] example_wallet = Inr example_user"
    by (rule getUserByWalletId_single)
  have n: "Error ''Invalid signature length'' None
        \<noteq> ValidationError ''Signature is not valid - verification failed''" by simp
  from g example_throwing_check example_createUser_throws n example_createUser_handler_throws
  show ?thesis by blast
qed

text \<open>A successful call with \<open>verify = true\<close> found a record, a signature that verifies
  against its nonce, and wrote one item with \<open>put\<close>.\<close>

lemma createUser_try_verify_success:
  assumes "createUser_try e rt tbl w True sg prefix = (Inr r, tbl')"
  shows "\<exists>u. getUserByWalletId e tbl w = Inr u
           \<and> isValidEthSignature e w (prefix @ Nonce u) sg = Inr True
           \<and> ddb_fault e Put = None
           \<and> tbl' = filter (\<lambda>x. UserId x \<noteq> UserId u) tbl @
                 [\<lparr>UserId = UserId u, WalletId = toLowerCase w, Nonce = randomNonce rt,
                   CreatedTime = now rt, LastLogin = now rt, Verified = True,
                   ExpiryTime = unix (now rt + userExpiry e * 86400000)\<rparr>]
           \<and> r = \<lparr>cu_success = True, cu_userId = UserId u, cu_walletId = toLowerCase w,
                  cu_nonce = randomNonce rt\<rparr>"
proof (cases "userExistsByWalletId e tbl w")
  case (Inl err)
  with assms show ?thesis by (simp add: createUser_try_def split: if_splits)
next
  case (Inr ex)
  show ?thesis
  proof (cases ex)
    case False
    with Inr assms show ?thesis by (simp add: createUser_try_def split: if_splits)
  next
    case True
    with Inr have ex: "userExistsByWalletId e tbl w = Inr True" by simp
    have "\<exists>u. getUserByWalletId e tbl w = Inr u" by (rule userExists_True [OF ex])
    then obtain u where u: "getUserByWalletId e tbl w = Inr u" by blast
    show ?thesis
    proof (cases "isValidEthSignature e w (prefix @ Nonce u) sg")
      case (Inl err)
      with ex u assms show ?thesis
        by (simp add: createUser_try_def getUserNonce_Inr split: if_splits)
    next
      case (Inr b)
      with ex u assms have b: "b"
        by (simp add: createUser_try_def getUserNonce_Inr split: if_splits)
      with Inr ex u assms show ?thesis
        by (auto simp: createUser_try_def getUserNonce_Inr getUserId_Inr ddb_put_def Let_def
              split: if_splits option.splits)
    qed
  qed
qed

lemma filter_after_put:
  assumes "filter (\<lambda>x. WalletId x = k) tbl = [u]" and "WalletId n = k"
  shows "filter (\<lambda>x. WalletId x = k) (filter (\<lambda>x. UserId x \<noteq> UserId u) tbl @ [n]) = [n]"
proof -
  have "filter (\<lambda>x. WalletId x = k) (filter (\<lambda>x. UserId x \<noteq> UserId u) tbl)
          = filter (\<lambda>x. UserId x \<noteq> UserId u) (filter (\<lambda>x. WalletId x = k) tbl)"
    by (simp add: conj_commute)
  also have "\<dots> = []" by (simp add: assms(1))
  finally show ?thesis using assms(2) by simp
qed

text \<open>
  C10. When \<open>createUser\<close> succeeds with \<open>verify = true\<close> for a wallet whose record is
  \<open>u\<close>, the table it leaves is the old one with the item of \<open>u\<close>'s \<open>UserId\<close> replaced
  by one new item, and a lookup of the wallet now returns that item: it keeps the
  \<open>UserId\<close> and the (lower-cased) \<open>WalletId\<close> of \<open>u\<close>, while \<open>CreatedTime\<close> and
  \<open>LastLogin\<close> are the current time, \<open>Nonce\<close> is the newly drawn nonce, \<open>Verified\<close>
  is true and \<open>ExpiryTime\<close> is the current time plus the configured number of days, in
  whole seconds. Nothing of the old \<open>CreatedTime\<close> survives.
\<close>

theorem createUser_verify_success_rewrites:
  assumes "createUser e rt tbl w True sg prefix = (Inr r, tbl')"
    and "filter (\<lambda>x. WalletId x = toLowerCase w) tbl = [u]"
  shows "tbl' = filter (\<lambda>x. UserId x \<noteq> UserId u) tbl @
                 [\<lparr>UserId = UserId u, WalletId = WalletId u, Nonce = randomNonce rt,
                   CreatedTime = now rt, LastLogin = now rt, Verified = True,
                   ExpiryTime = unix (now rt + userExpiry e * 86400000)\<rparr>]
       \<and> getUserByWalletId e tbl' w =
           Inr \<lparr>UserId = UserId u, WalletId = WalletId u, Nonce = randomNonce rt,
                CreatedTime = now rt, LastLogin = now rt, Verified = True,
                ExpiryTime = unix (now rt + userExpiry e * 86400000)\<rparr>
       \<and> WalletId u = toLowerCase w"
proof -
  from assms(1) have "createUser_try e rt tbl w True sg prefix = (Inr r, tbl')"
    by (auto simp: createUser_def rethrow_def split: prod.splits sum.splits)
  from createUser_try_verify_success [OF this]
  obtain v where v: "getUserByWalletId e tbl w = Inr v"
    and t: "tbl' = filter (\<lambda>x. UserId x \<noteq> UserId v) tbl @
                 [\<lparr>UserId = UserId v, WalletId = toLowerCase w, Nonce = randomNonce rt,
                   CreatedTime = now rt, LastLogin = now rt, Verified = True,
                   ExpiryTime = unix (now rt + userExpiry e * 86400000)\<rparr>]"
    by blast
  from v have q: "ddb_fault e Query = None"
    and f: "filter (\<lambda>u. WalletId u = toLowerCase w) tbl = [v]"
    by (simp_all add: getUserByWalletId_Inr)
  from f assms(2) have uv: "v = u" by simp
  have "u \<in> set (filter (\<lambda>x. WalletId x = toLowerCase w) tbl)" by (simp add: assms(2))
  then have wu: "WalletId u = toLowerCase w" by simp
  have "filter (\<lambda>x. WalletId x = toLowerCase w) tbl' =
          [\<lparr>UserId = UserId u, WalletId = WalletId u, Nonce = randomNonce rt,
                   CreatedTime = now rt, LastLogin = now rt, Verified = True,
                   ExpiryTime = unix (now rt + userExpiry e * 86400000)\<rparr>]"
    unfolding t uv wu by (rule filter_after_put [OF assms(2)]) simp
  with q have "getUserByWalletId e tbl' w =
           Inr \<lparr>UserId = UserId u, WalletId = WalletId u, Nonce = randomNonce rt,
                CreatedTime = now rt, LastLogin = now rt, Verified = True,
                ExpiryTime = unix (now rt + userExpiry e * 86400000)\<rparr>"
    by (rule getUserByWalletId_single)
  with t uv wu show ?thesis by simp
qed

lemma example_createUser_ok:
  "createUser example_env example_rt [example_user] example_wallet True ''0xa11ce''
      (SIGN_PREFIX example_env)
     = (Inr \<lparr>cu_success = True, cu_userId = ''0F1E2D3C4B5A69'', cu_walletId = example_wallet,
             cu_nonce = ''9f86d081884c7d659a2feaa0c55ad015''\<rparr>, [example_verified])"
  by code_simp

theorem createUser_verify_success_rewrites_witness:
  "createUser example_env example_rt [example_user] example_wallet True ''0xa11ce''
      (SIGN_PREFIX example_env)
     = (Inr \<lparr>cu_success = True, cu_userId = ''0F1E2D3C4B5A69'', cu_walletId = example_wallet,
             cu_nonce = ''9f86d081884c7d659a2feaa0c55ad015''\<rparr>, [example_verified])
   \<and> filter (\<lambda>x. WalletId x = toLowerCase example_wallet) [example_user] = [example_user]
   \<and> getUserByWalletId example_env [example_verified] example_wallet = Inr example_verified
   \<and> CreatedTime example_verified = now example_rt
   \<and> CreatedTime example_user \<noteq> CreatedTime example_verified"
proof -
  note r = createUser_verify_success_rewrites [OF example_createUser_ok example_filter]
  have n: "\<lparr>UserId = UserId example_user, WalletId = WalletId example_user,
            Nonce = randomNonce example_rt, CreatedTime = now example_rt,
            LastLogin = now example_rt, Verified = True,
            ExpiryTime = unix (now example_rt + userExpiry example_env * 86400000)\<rparr>
           = example_verified"
    by (simp add: example_user_def example_rt_def example_verified_def example_env_def
          userExpiry_def unix_def)
  from r have "getUserByWalletId example_env [example_verified] example_wallet = Inr example_verified"
    unfolding n by simp
  moreover have "CreatedTime example_verified = now example_rt"
    by (simp add: example_verified_def example_rt_def)
  moreover have "CreatedTime example_user \<noteq> CreatedTime example_verified"
    by (simp add: example_verified_def example_user_def)
  ultimately show ?thesis using example_createUser_ok example_filter by simp
qed

subsection \<open>Signature verification\<close>

text \<open>\<open>isValidEthSignature\<close> compares the recovered address with the wallet identifier
  by strict equality of the two strings.\<close>

lemma isValidEthSignature_iff:
  "isValidEthSignature e w m s = Inr True \<longleftrightarrow>
     recoverPersonalSignature e (''0x'' @ toHex m) s = Inr w"
  by (auto simp: isValidEthSignature_def Let_def split: sum.splits)

lemma example_login_checksummed:
  "login_handler example_env example_rt [example_verified] example_checksummed ''0xa11ce'' ''req-1''
     = (Inl \<lparr>success = False, statusCode = 401,
             message = ''Validation Error: Invalid signature, access denied'',
             requestId = ''req-1''\<rparr>, [example_verified])"
  by code_simp

text \<open>
  C2. In the example deployment the signature \<open>0xa11ce\<close> recovers the address
  \<open>example_wallet\<close>, and \<open>example_checksummed\<close> is the same address in mixed case (its
  lower-cased form is \<open>example_wallet\<close>). The check accepts the lower-case wallet and
  rejects the mixed-case one, although the lookup by wallet lower-cases its input and
  finds the record; a login with the mixed-case wallet and a valid signature is refused.
\<close>

theorem isValidEthSignature_case_sensitive:
  "recoverPersonalSignature example_env
      (''0x'' @ toHex (LOGIN_PREFIX example_env @ Nonce example_verified)) ''0xa11ce''
     = Inr example_wallet
   \<and> toLowerCase example_checksummed = example_wallet
   \<and> isValidEthSignature example_env example_wallet
        (LOGIN_PREFIX example_env @ Nonce example_verified) ''0xa11ce'' = Inr True
   \<and> isValidEthSignature example_env example_checksummed
        (LOGIN_PREFIX example_env @ Nonce example_verified) ''0xa11ce'' = Inr False
   \<and> getUserByWalletId example_env [example_verified] example_checksummed = Inr example_verified
   \<and> login_handler example_env example_rt [example_verified] example_checksummed ''0xa11ce''
        ''req-1''
      = (Inl \<lparr>success = False, statusCode = 401,
              message = ''Validation Error: Invalid signature, access denied'',
              requestId = ''req-1''\<rparr>, [example_verified])"
proof -
  have r: "recoverPersonalSignature example_env
      (''0x'' @ toHex (LOGIN_PREFIX example_env @ Nonce example_verified)) ''0xa11ce''
     = Inr example_wallet"
    by (simp add: example_env_def)
  have ne: "example_wallet \<noteq> example_checksummed"
    by (simp add: example_wallet_def example_checksummed_def)
  have t: "isValidEthSignature example_env example_wallet
        (LOGIN_PREFIX example_env @ Nonce example_verified) ''0xa11ce'' = Inr True"
    using r by (simp add: isValidEthSignature_iff)
  have f: "isValidEthSignature example_env example_checksummed
        (LOGIN_PREFIX example_env @ Nonce example_verified) ''0xa11ce'' = Inr False"
    using r ne by (simp add: isValidEthSignature_def)
  have "filter (\<lambda>x. WalletId x = toLowerCase example_checksummed) [example_verified]
          = [example_verified]"
    by (simp add: lower_checksummed example_verified_def)
  with example_query_ok
  have g: "getUserByWalletId example_env [example_verified] example_checksummed
             = Inr example_verified"
    by (rule getUserByWalletId_single)
  from r lower_checksummed t f g example_login_checksummed show ?thesis by simp
qed

subsection \<open>Tokens\<close>

lemma unix_add_minutes: "unix (t + m * 60000) = unix t + m * 60"
proof -
  have "t + m * 60000 = t + (m * 60) * 1000" by simp
  then show ?thesis unfolding unix_def by (metis div_mult_self1 zero_neq_numeral add.commute)
qed

lemma verifyJwt_ok:
  assumes "getPubKey e pubKey = (Inr True, key)" and "alg h = ''PS256''"
    and "jws_verify e key (h, p) s" and "unix (now rt) < exp p"
  shows "verifyJwt e rt pubKey (Jwt h p s) = (Inr p, key)"
  using assms by (simp add: verifyJwt_def jwt_verify_def)

lemma verifyJwt_expired:
  assumes "getPubKey e pubKey = (Inr True, key)" and "alg h = ''PS256''"
    and "jws_verify e key (h, p) s" and "exp p \<le> unix (now rt)"
  shows "verifyJwt e rt pubKey (Jwt h p s) = (Inl TokenExpiredError, key)"
  using assms by (simp add: verifyJwt_def jwt_verify_def)

lemma createJwt_ok:
  assumes "kms_sign e (\<lparr>alg = ''PS256'', typ_hdr = ''JWT''\<rparr>,
             \<lparr>iss = ISSUER e, sub = Some u, admin = Some a, refresh = Some r, aud = [''nrg''],
              iat = unix (now rt),
              exp = (if r then expTime rt (REFRESH_TOKEN_TIME e) else expTime rt (AUTH_TOKEN_TIME e))\<rparr>)
           = Inr s"
  shows "createJwt e rt u a r =
           Inr (Jwt \<lparr>alg = ''PS256'', typ_hdr = ''JWT''\<rparr>
             \<lparr>iss = ISSUER e, sub = Some u, admin = Some a, refresh = Some r, aud = [''nrg''],
              iat = unix (now rt),
              exp = (if r then expTime rt (REFRESH_TOKEN_TIME e) else expTime rt (AUTH_TOKEN_TIME e))\<rparr> s)"
  using assms by (simp add: createJwt_def signMsg_def rethrow_def Let_def)

lemma createJwt_signed:
  assumes "\<forall>m. \<exists>s. kms_sign e m = Inr s \<and> P m s"
  shows "\<exists>s. createJwt e rt u a r =
           Inr (Jwt \<lparr>alg = ''PS256'', typ_hdr = ''JWT''\<rparr>
             \<lparr>iss = ISSUER e, sub = Some u, admin = Some a, refresh = Some r, aud = [''nrg''],
              iat = unix (now rt),
              exp = (if r then expTime rt (REFRESH_TOKEN_TIME e) else expTime rt (AUTH_TOKEN_TIME e))\<rparr> s)
          \<and> P (\<lparr>alg = ''PS256'', typ_hdr = ''JWT''\<rparr>,
             \<lparr>iss = ISSUER e, sub = Some u, admin = Some a, refresh = Some r, aud = [''nrg''],
              iat = unix (now rt),
              exp = (if r then expTime rt (REFRESH_TOKEN_TIME e) else expTime rt (AUTH_TOKEN_TIME e))\<rparr>) s"
proof -
  from assms obtain s where "kms_sign e (\<lparr>alg = ''PS256'', typ_hdr = ''JWT''\<rparr>,
             \<lparr>iss = ISSUER e, sub = Some u, admin = Some a, refresh = Some r, aud = [''nrg''],
              iat = unix (now rt),
              exp = (if r then expTime rt (REFRESH_TOKEN_TIME e) else expTime rt (AUTH_TOKEN_TIME e))\<rparr>)
           = Inr s \<and> P (\<lparr>alg = ''PS256'', typ_hdr = ''JWT''\<rparr>,
             \<lparr>iss = ISSUER e, sub = Some u, admin = Some a, refresh = Some r, aud = [''nrg''],
              iat = unix (now rt),
              exp = (if r then expTime rt (REFRESH_TOKEN_TIME e) else expTime rt (AUTH_TOKEN_TIME e))\<rparr>) s"
    by blast
  then show ?thesis using createJwt_ok by blast
qed

lemma validateAuthToken_ok:
  assumes "verifyJwt e rt pubKey tok = (Inr d, key)" and "refresh d \<noteq> Some True"
  shows "validateAuthToken e rt pubKey tok = (Inr d, key)"
  using assms by (simp add: validateAuthToken_def)

lemma validateAuthToken_refresh:
  assumes "verifyJwt e rt pubKey tok = (Inr d, key)" and "refresh d = Some True"
  shows "validateAuthToken e rt pubKey tok = (Inl (ValidationError ''Invalid Auth token''), key)"
  using assms by (simp add: validateAuthToken_def)

lemma validateRefreshCookie_ok:
  assumes "verifyJwt e rt pubKey (Jwt h p s) = (Inr d, key)" and "refresh d = Some True"
  shows "validateRefreshCookie e rt pubKey [(''token'', Jwt h p s)] = (Inr (sub d), key)"
  using assms by (simp add: validateRefreshCookie_def)

lemma validateRefreshCookie_access:
  assumes "verifyJwt e rt pubKey (Jwt h p s) = (Inr d, key)" and "refresh d \<noteq> Some True"
  shows "validateRefreshCookie e rt pubKey [(''token'', Jwt h p s)]
           = (Inl (ValidationError ''Invalid refresh token''), key)"
  using assms by (simp add: validateRefreshCookie_def)

text \<open>Without a user id no token is made.\<close>

lemma createToken_missing_userId:
  "createAuthToken e rt [] a = Inl (Error ''Missing userId parameter'' None)
   \<and> createRefreshToken e rt [] = Inl (Error ''Missing userId parameter'' None)"
  by (simp add: createAuthToken_def createRefreshToken_def)

text \<open>
  C3. Token round trip. Let the signing service answer every request with a signature
  that the library accepts under the public key, let the key be available (cached or
  fetched), and let \<open>u\<close> be a non-empty user id. Then \<open>createAuthToken(u, false)\<close> and
  \<open>createRefreshToken(u)\<close> each return a token, and at any clock reading before the
  tokens expire:
  \<^item> validating the access token as an access token succeeds with claims whose subject
    is \<open>u\<close>, whose \<open>admin\<close> is false and whose \<open>refresh\<close> is false;
  \<^item> verifying the refresh token succeeds with \<open>refresh\<close> true and subject \<open>u\<close>, and
    validating it as a refresh cookie succeeds and returns \<open>u\<close>;
  \<^item> the access token presented as a refresh cookie fails with the validation error
    \<open>Invalid refresh token\<close>, and the refresh token presented as an access token fails
    with the validation error \<open>Invalid Auth token\<close>.
\<close>

theorem token_round_trip:
  assumes "u \<noteq> []"
    and "\<forall>m. \<exists>s. kms_sign e m = Inr s \<and> jws_verify e key m s"
    and "getPubKey e pubKey = (Inr True, key)"
    and "unix (now rt') < expTime rt (AUTH_TOKEN_TIME e)"
    and "unix (now rt') < expTime rt (REFRESH_TOKEN_TIME e)"
  shows "\<exists>a r. createAuthToken e rt u False = Inr a \<and> createRefreshToken e rt u = Inr r
     \<and> (\<exists>d. validateAuthToken e rt' pubKey a = (Inr d, key)
            \<and> sub d = Some u \<and> admin d = Some False \<and> refresh d = Some False)
     \<and> (\<exists>d. verifyJwt e rt' pubKey r = (Inr d, key) \<and> sub d = Some u \<and> refresh d = Some True)
     \<and> validateRefreshCookie e rt' pubKey [(''token'', r)] = (Inr (Some u), key)
     \<and> validateRefreshCookie e rt' pubKey [(''token'', a)]
           = (Inl (ValidationError ''Invalid refresh token''), key)
     \<and> validateAuthToken e rt' pubKey r = (Inl (ValidationError ''Invalid Auth token''), key)"
proof -
  let ?h = "\<lparr>alg = ''PS256'', typ_hdr = ''JWT''\<rparr>"
  let ?pa = "\<lparr>iss = ISSUER e, sub = Some u, admin = Some False, refresh = Some False,
              aud = [''nrg''], iat = unix (now rt), exp = expTime rt (AUTH_TOKEN_TIME e)\<rparr>"
  let ?pr = "\<lparr>iss = ISSUER e, sub = Some u, admin = Some False, refresh = Some True,
              aud = [''nrg''], iat = unix (now rt), exp = expTime rt (REFRESH_TOKEN_TIME e)\<rparr>"
  from createJwt_signed [OF assms(2), of rt u False False]
  obtain sa where a: "createJwt e rt u False False = Inr (Jwt ?h ?pa sa)"
    and va: "jws_verify e key (?h, ?pa) sa" by auto
  from createJwt_signed [OF assms(2), of rt u False True]
  obtain sr where r: "createJwt e rt u False True = Inr (Jwt ?h ?pr sr)"
    and vr: "jws_verify e key (?h, ?pr) sr" by auto
  have ja: "verifyJwt e rt' pubKey (Jwt ?h ?pa sa) = (Inr ?pa, key)"
    by (rule verifyJwt_ok [OF assms(3) _ va]) (simp_all add: assms(4))
  have jr: "verifyJwt e rt' pubKey (Jwt ?h ?pr sr) = (Inr ?pr, key)"
    by (rule verifyJwt_ok [OF assms(3) _ vr]) (simp_all add: assms(5))
  have 1: "createAuthToken e rt u False = Inr (Jwt ?h ?pa sa)"
    using a assms(1) by (simp add: createAuthToken_def)
  have 2: "createRefreshToken e rt u = Inr (Jwt ?h ?pr sr)"
    using r assms(1) by (simp add: createRefreshToken_def)
  have 3: "validateAuthToken e rt' pubKey (Jwt ?h ?pa sa) = (Inr ?pa, key)"
    by (rule validateAuthToken_ok [OF ja]) simp
  have 4: "validateRefreshCookie e rt' pubKey [(''token'', Jwt ?h ?pr sr)] = (Inr (Some u), key)"
    using validateRefreshCookie_ok [OF jr] by simp
  have 5: "validateRefreshCookie e rt' pubKey [(''token'', Jwt ?h ?pa sa)]
           = (Inl (ValidationError ''Invalid refresh token''), key)"
    by (rule validateRefreshCookie_access [OF ja]) simp
  have 6: "validateAuthToken e rt' pubKey (Jwt ?h ?pr sr)
           = (Inl (ValidationError ''Invalid Auth token''), key)"
    by (rule validateAuthToken_refresh [OF jr]) simp
  from 1 2 3 4 5 6 jr show ?thesis by simp
qed

lemma example_signer: "\<forall>m. \<exists>s. kms_sign example_env m = Inr s \<and> jws_verify example_env (pem ''MIIB'') m s"
  by (simp add: example_env_def)

lemma example_getPubKey: "getPubKey example_env [] = (Inr True, pem ''MIIB'')"
  by (simp add: getPubKey_def example_env_def)

lemma example_createAuthToken:
  "createAuthToken example_env example_rt ''0F1E2D3C4B5A69'' False
     = Inr (Jwt example_header example_auth_data ''c2ln'')"
  by (simp add: createAuthToken_def createJwt_def signMsg_def rethrow_def Let_def expTime_def
        unix_def example_env_def example_rt_def example_header_def example_auth_data_def)

lemma example_createRefreshToken:
  "createRefreshToken example_env example_rt ''0F1E2D3C4B5A69''
     = Inr (Jwt example_header example_refresh_data ''c2ln'')"
  by (simp add: createRefreshToken_def createJwt_def signMsg_def rethrow_def Let_def expTime_def
        unix_def example_env_def example_rt_def example_header_def example_refresh_data_def)

theorem token_round_trip_witness:
  "''0F1E2D3C4B5A69'' \<noteq> []
   \<and> getPubKey example_env [] = (Inr True, pem ''MIIB'')
   \<and> unix (now example_rt1) < expTime example_rt (AUTH_TOKEN_TIME example_env)
   \<and> unix (now example_rt1) < expTime example_rt (REFRESH_TOKEN_TIME example_env)
   \<and> createAuthToken example_env example_rt ''0F1E2D3C4B5A69'' False
        = Inr (Jwt example_header example_auth_data ''c2ln'')
   \<and> createRefreshToken example_env example_rt ''0F1E2D3C4B5A69''
        = Inr (Jwt example_header example_refresh_data ''c2ln'')
   \<and> (\<exists>d. validateAuthToken example_env example_rt1 []
               (Jwt example_header example_auth_data ''c2ln'') = (Inr d, pem ''MIIB'')
          \<and> sub d = Some ''0F1E2D3C4B5A69'' \<and> admin d = Some False \<and> refresh d = Some False)
   \<and> validateRefreshCookie example_env example_rt1 []
        [(''token'', Jwt example_header example_refresh_data ''c2ln'')]
        = (Inr (Some ''0F1E2D3C4B5A69''), pem ''MIIB'')
   \<and> validateRefreshCookie example_env example_rt1 []
        [(''token'', Jwt example_header example_auth_data ''c2ln'')]
        = (Inl (ValidationError ''Invalid refresh token''), pem ''MIIB'')
   \<and> validateAuthToken example_env example_rt1 [] (Jwt example_header example_refresh_data ''c2ln'')
        = (Inl (ValidationError ''Invalid Auth token''), pem ''MIIB'')"
proof -
  have 1: "''0F1E2D3C4B5A69'' \<noteq> []" by simp
  have 4: "unix (now example_rt1) < expTime example_rt (AUTH_TOKEN_TIME example_env)"
    by (simp add: unix_def expTime_def example_rt1_def example_rt_def example_env_def)
  have 5: "unix (now example_rt1) < expTime example_rt (REFRESH_TOKEN_TIME example_env)"
    by (simp add: unix_def expTime_def example_rt1_def example_rt_def example_env_def)
  from token_round_trip [OF 1 example_signer example_getPubKey 4 5]
  show ?thesis
    using 1 4 5 example_getPubKey by (auto simp: example_createAuthToken example_createRefreshToken)
qed

subsection \<open>The authorizer\<close>

lemma verifyJwt_reject:
  assumes "case tok of Opaque s \<Rightarrow> True | Jwt h p sg \<Rightarrow> exp p \<le> unix (now rt)"
  shows "\<exists>err pk. verifyJwt e rt pubKey tok = (Inl err, pk)"
  using assms
  by (cases tok) (auto simp: verifyJwt_def jwt_verify_def split: prod.splits sum.splits)






subsection \<open>Refresh\<close>

lemma createAuthToken_signed:
  assumes "\<forall>m. \<exists>s. kms_sign e m = Inr s" and "u \<noteq> []"
  shows "\<exists>s. createAuthToken e rt u False =
           Inr (Jwt \<lparr>alg = ''PS256'', typ_hdr = ''JWT''\<rparr>
             \<lparr>iss = ISSUER e, sub = Some u, admin = Some False, refresh = Some False,
              aud = [''nrg''], iat = unix (now rt), exp = expTime rt (AUTH_TOKEN_TIME e)\<rparr> s)"
proof -
  from assms(1) have "\<forall>m. \<exists>s. kms_sign e m = Inr s \<and> True" by simp
  from createJwt_signed [OF this, of rt u False False] assms(2)
  show ?thesis by (simp add: createAuthToken_def)
qed

lemma createRefreshCookie_signed:
  assumes "\<forall>m. \<exists>s. kms_sign e m = Inr s" and "u \<noteq> []"
  shows "\<exists>c. createRefreshCookie e rt u = Inr c"
proof -
  from assms(1) have "\<forall>m. \<exists>s. kms_sign e m = Inr s \<and> True" by simp
  from createJwt_signed [OF this, of rt u False True] assms(2)
  show ?thesis by (auto simp: createRefreshCookie_def createRefreshToken_def)
qed

lemma validateRefreshCookie_nonempty:
  "validateRefreshCookie e rt pubKey ck = (Inr x, pk) \<Longrightarrow> ck \<noteq> []"
  by (auto simp: validateRefreshCookie_def)

lemma refresh_handler_ok:
  assumes "validateRefreshCookie e rt pubKey ck = (Inr (Some u), pk)" and "u \<noteq> []"
    and "\<forall>m. \<exists>s. kms_sign e m = Inr s"
  shows "\<exists>r s. refresh_handler e rt pubKey ck rid = (Inr r, pk)
           \<and> rr_userId r = u
           \<and> rr_authToken r = Jwt \<lparr>alg = ''PS256'', typ_hdr = ''JWT''\<rparr>
               \<lparr>iss = ISSUER e, sub = Some u, admin = Some False, refresh = Some False,
                aud = [''nrg''], iat = unix (now rt), exp = expTime rt (AUTH_TOKEN_TIME e)\<rparr> s"
proof -
  from createAuthToken_signed [OF assms(3,2), of rt] obtain s where
    a: "createAuthToken e rt u False =
           Inr (Jwt \<lparr>alg = ''PS256'', typ_hdr = ''JWT''\<rparr>
             \<lparr>iss = ISSUER e, sub = Some u, admin = Some False, refresh = Some False,
              aud = [''nrg''], iat = unix (now rt), exp = expTime rt (AUTH_TOKEN_TIME e)\<rparr> s)"
    by blast
  from createRefreshCookie_signed [OF assms(3,2), of rt] obtain c where
    c: "createRefreshCookie e rt u = Inr c" by blast
  from assms(1) have "ck \<noteq> []" by (rule validateRefreshCookie_nonempty)
  with assms(1,2) a c show ?thesis
    by (simp add: refresh_handler_def refresh_try_def)
qed

text \<open>
  C8. Let a refresh cookie validate, with a non-empty user id, at the clock
  readings of two refresh calls, the second not earlier than the first, and let the
  signing service answer. Then both calls succeed with the same cookie, each returns an
  access token, and the \<open>exp\<close> claim of the second token is greater than or equal to
  that of the first; it is strictly greater exactly when the second call's clock reading
  falls in a later whole second than the first's.
\<close>

theorem refresh_twice_exp_monotone:
  assumes "validateRefreshCookie e rt1 pubKey ck = (Inr (Some u), pk1)"
    and "validateRefreshCookie e rt2 pk1 ck = (Inr (Some u), pk2)"
    and "u \<noteq> []" and "\<forall>m. \<exists>s. kms_sign e m = Inr s" and "now rt1 \<le> now rt2"
  shows "\<exists>r1 r2 h1 p1 s1 h2 p2 s2.
           refresh_handler e rt1 pubKey ck rid1 = (Inr r1, pk1)
         \<and> refresh_handler e rt2 pk1 ck rid2 = (Inr r2, pk2)
         \<and> rr_authToken r1 = Jwt h1 p1 s1 \<and> rr_authToken r2 = Jwt h2 p2 s2
         \<and> exp p1 \<le> exp p2 \<and> (exp p1 < exp p2 \<longleftrightarrow> unix (now rt1) < unix (now rt2))"
proof -
  from refresh_handler_ok [OF assms(1,3,4), of rid1] obtain r1 s1 where
    1: "refresh_handler e rt1 pubKey ck rid1 = (Inr r1, pk1)"
    and t1: "rr_authToken r1 = Jwt \<lparr>alg = ''PS256'', typ_hdr = ''JWT''\<rparr>
               \<lparr>iss = ISSUER e, sub = Some u, admin = Some False, refresh = Some False,
                aud = [''nrg''], iat = unix (now rt1), exp = expTime rt1 (AUTH_TOKEN_TIME e)\<rparr> s1"
    by blast
  from refresh_handler_ok [OF assms(2,3,4), of rid2] obtain r2 s2 where
    2: "refresh_handler e rt2 pk1 ck rid2 = (Inr r2, pk2)"
    and t2: "rr_authToken r2 = Jwt \<lparr>alg = ''PS256'', typ_hdr = ''JWT''\<rparr>
               \<lparr>iss = ISSUER e, sub = Some u, admin = Some False, refresh = Some False,
                aud = [''nrg''], iat = unix (now rt2), exp = expTime rt2 (AUTH_TOKEN_TIME e)\<rparr> s2"
    by blast
  from assms(5) have m: "unix (now rt1) \<le> unix (now rt2)"
    unfolding unix_def by (rule zdiv_mono1) simp
  have e1: "expTime rt1 (AUTH_TOKEN_TIME e) = unix (now rt1) + AUTH_TOKEN_TIME e * 60"
    and e2: "expTime rt2 (AUTH_TOKEN_TIME e) = unix (now rt2) + AUTH_TOKEN_TIME e * 60"
    by (simp_all add: expTime_def unix_add_minutes)
  from m have "expTime rt1 (AUTH_TOKEN_TIME e) \<le> expTime rt2 (AUTH_TOKEN_TIME e)"
    and "expTime rt1 (AUTH_TOKEN_TIME e) < expTime rt2 (AUTH_TOKEN_TIME e)
           \<longleftrightarrow> unix (now rt1) < unix (now rt2)"
    by (simp_all add: e1 e2)
  with 1 2 t1 t2 show ?thesis by simp
qed

lemma example_validateRefreshCookie1:
  "validateRefreshCookie example_env example_rt1 [] (sent example_cookie)
     = (Inr (Some ''0F1E2D3C4B5A69''), pem ''MIIB'')"
  by code_simp

lemma example_validateRefreshCookie2:
  "validateRefreshCookie example_env example_rt2 (pem ''MIIB'') (sent example_cookie)
     = (Inr (Some ''0F1E2D3C4B5A69''), pem ''MIIB'')"
  by code_simp

lemma example_sign_total: "\<forall>m. \<exists>s. kms_sign example_env m = Inr s"
  by (simp add: example_env_def)

lemma example_refresh1:
  "refresh_handler example_env example_rt1 [] (sent example_cookie) ''req-1''
     = (Inr (example_refreshed ''req-1''), pem ''MIIB'')"
  by code_simp

lemma example_refresh2:
  "refresh_handler example_env example_rt2 (pem ''MIIB'') (sent example_cookie) ''req-2''
     = (Inr (example_refreshed ''req-2''), pem ''MIIB'')"
  by code_simp

theorem refresh_twice_exp_monotone_witness:
  "validateRefreshCookie example_env example_rt1 [] (sent example_cookie)
     = (Inr (Some ''0F1E2D3C4B5A69''), pem ''MIIB'')
   \<and> validateRefreshCookie example_env example_rt2 (pem ''MIIB'') (sent example_cookie)
     = (Inr (Some ''0F1E2D3C4B5A69''), pem ''MIIB'')
   \<and> now example_rt1 \<le> now example_rt2
   \<and> (\<exists>r1 r2 h1 p1 s1 h2 p2 s2.
           refresh_handler example_env example_rt1 [] (sent example_cookie) ''req-1'' = (Inr r1, pem ''MIIB'')
         \<and> refresh_handler example_env example_rt2 (pem ''MIIB'') (sent example_cookie) ''req-2''
              = (Inr r2, pem ''MIIB'')
         \<and> rr_authToken r1 = Jwt h1 p1 s1 \<and> rr_authToken r2 = Jwt h2 p2 s2
         \<and> exp p1 \<le> exp p2)"
proof -
  have 3: "''0F1E2D3C4B5A69'' \<noteq> []" by simp
  have 5: "now example_rt1 \<le> now example_rt2" by (simp add: example_rt1_def example_rt2_def)
  from refresh_twice_exp_monotone [OF example_validateRefreshCookie1
      example_validateRefreshCookie2 3 example_sign_total 5, of "''req-1''" "''req-2''"]
    example_validateRefreshCookie1 example_validateRefreshCookie2 5
  show ?thesis by blast
qed

text \<open>Two refresh calls 400 ms apart within one second: both succeed and both access
  tokens expire at the same second, so the second \<open>exp\<close> is not strictly greater.\<close>

theorem refresh_same_second_counterexample:
  "refresh_handler example_env example_rt1 [] (sent example_cookie) ''req-1''
     = (Inr (example_refreshed ''req-1''), pem ''MIIB'')
   \<and> refresh_handler example_env example_rt2 (pem ''MIIB'') (sent example_cookie) ''req-2''
     = (Inr (example_refreshed ''req-2''), pem ''MIIB'')
   \<and> now example_rt1 < now example_rt2
   \<and> rr_authToken (example_refreshed ''req-1'') = Jwt example_header example_auth_data1 ''c2ln''
   \<and> rr_authToken (example_refreshed ''req-2'') = Jwt example_header example_auth_data1 ''c2ln''
   \<and> exp example_auth_data1 = 1700000301"
proof -
  have t: "now example_rt1 < now example_rt2" by (simp add: example_rt1_def example_rt2_def)
  have a: "rr_authToken (example_refreshed ''req-1'') = Jwt example_header example_auth_data1 ''c2ln''"
    and b: "rr_authToken (example_refreshed ''req-2'') = Jwt example_header example_auth_data1 ''c2ln''"
    by (simp_all add: example_refreshed_def)
  have c: "exp example_auth_data1 = 1700000301" by (simp add: example_auth_data1_def)
  from example_refresh1 example_refresh2 t a b c show ?thesis by blast
qed

subsection \<open>Status codes on the login, refresh and logout paths\<close>

lemma validateRefreshCookie_expired:
  assumes "map_of ck ''token'' = Some (Jwt h p s)"
    and "getPubKey e pubKey = (Inr True, key)" and "alg h = ''PS256''"
    and "jws_verify e key (h, p) s" and "exp p \<le> unix (now rt)"
  shows "validateRefreshCookie e rt pubKey ck = (Inl TokenExpiredError, key)"
  using assms(1) verifyJwt_expired [OF assms(2-5)]
  by (simp add: validateRefreshCookie_def)

lemma map_of_nonempty: "map_of ck k = Some v \<Longrightarrow> ck \<noteq> []"
  by auto

text \<open>
  C5. On the login, refresh and logout paths every error \<open>err\<close> of the
  handler body is surfaced as \<open>{success: false, statusCode, message, requestId}\<close>, where
  \<open>message\<close> is the message of \<open>err\<close> and \<open>statusCode\<close> is 401 when the status code
  of \<open>err\<close> is 400, 500 when \<open>err\<close> has no status code, and the status code of \<open>err\<close>
  unchanged otherwise (so 401 stays 401, 403 stays 403, 500 stays 500). In particular
  an expired refresh token (\<open>TokenExpiredError\<close>, internal status 400) surfaces as 401 on
  refresh and logout, and a signature that does not verify at login
  (\<open>ValidationError\<close>, 400) surfaces as 401.
\<close>

theorem auth_paths_status_code:
  "(\<forall>err t. login_try e rt tbl w sg rid = (Inl err, t) \<longrightarrow>
      login_handler e rt tbl w sg rid =
        (Inl \<lparr>success = False,
              statusCode = (case err_statusCode err of None \<Rightarrow> 500
                            | Some c \<Rightarrow> if c = 400 then 401 else c),
              message = err_message err, requestId = rid\<rparr>, t))
   \<and> (\<forall>err pk. refresh_try e rt pubKey ck rid = (Inl err, pk) \<longrightarrow>
      refresh_handler e rt pubKey ck rid =
        (Inl \<lparr>success = False,
              statusCode = (case err_statusCode err of None \<Rightarrow> 500
                            | Some c \<Rightarrow> if c = 400 then 401 else c),
              message = err_message err, requestId = rid\<rparr>, pk))
   \<and> (\<forall>err pk. logout_try e rt pubKey ck rid = (Inl err, pk) \<longrightarrow>
      logout_handler e rt pubKey ck rid =
        (Inl \<lparr>success = False,
              statusCode = (case err_statusCode err of None \<Rightarrow> 500
                            | Some c \<Rightarrow> if c = 400 then 401 else c),
              message = err_message err, requestId = rid\<rparr>, pk))
   \<and> (\<forall>h p s key. map_of ck ''token'' = Some (Jwt h p s)
          \<and> getPubKey e pubKey = (Inr True, key) \<and> alg h = ''PS256''
          \<and> jws_verify e key (h, p) s \<and> exp p \<le> unix (now rt) \<longrightarrow>
        refresh_handler e rt pubKey ck rid =
          (Inl \<lparr>success = False, statusCode = 401,
                message = ''Authentication token has expired'', requestId = rid\<rparr>, key)
        \<and> logout_handler e rt pubKey ck rid =
          (Inl \<lparr>success = False, statusCode = 401,
                message = ''Authentication token has expired'', requestId = rid\<rparr>, key))
   \<and> (\<forall>u. LOGIN_PREFIX e \<noteq> [] \<and> w \<noteq> [] \<and> sg \<noteq> []
          \<and> getUserByWalletId e tbl w = Inr u \<and> Verified u
          \<and> isValidEthSignature e w (LOGIN_PREFIX e @ Nonce u) sg = Inr False \<longrightarrow>
        login_handler e rt tbl w sg rid =
          (Inl \<lparr>success = False, statusCode = 401,
                message = ''Validation Error: Invalid signature, access denied'',
                requestId = rid\<rparr>, tbl))"
proof (intro conjI allI impI)
  fix err t assume "login_try e rt tbl w sg rid = (Inl err, t)"
  then show "login_handler e rt tbl w sg rid =
        (Inl \<lparr>success = False,
              statusCode = (case err_statusCode err of None \<Rightarrow> 500
                            | Some c \<Rightarrow> if c = 400 then 401 else c),
              message = err_message err, requestId = rid\<rparr>, t)"
    by (simp add: login_handler_def authCatch_def statusCodeOr500_def newApiError_def
          split: option.splits)
next
  fix err pk assume "refresh_try e rt pubKey ck rid = (Inl err, pk)"
  then show "refresh_handler e rt pubKey ck rid =
        (Inl \<lparr>success = False,
              statusCode = (case err_statusCode err of None \<Rightarrow> 500
                            | Some c \<Rightarrow> if c = 400 then 401 else c),
              message = err_message err, requestId = rid\<rparr>, pk)"
    by (simp add: refresh_handler_def authCatch_def statusCodeOr500_def newApiError_def
          split: option.splits)
next
  fix err pk assume "logout_try e rt pubKey ck rid = (Inl err, pk)"
  then show "logout_handler e rt pubKey ck rid =
        (Inl \<lparr>success = False,
              statusCode = (case err_statusCode err of None \<Rightarrow> 500
                            | Some c \<Rightarrow> if c = 400 then 401 else c),
              message = err_message err, requestId = rid\<rparr>, pk)"
    by (simp add: logout_handler_def authCatch_def statusCodeOr500_def newApiError_def
          split: option.splits)
next
  fix h p s key
  assume a: "map_of ck ''token'' = Some (Jwt h p s)
          \<and> getPubKey e pubKey = (Inr True, key) \<and> alg h = ''PS256''
          \<and> jws_verify e key (h, p) s \<and> exp p \<le> unix (now rt)"
  then have a1: "map_of ck ''token'' = Some (Jwt h p s)"
    and a2: "getPubKey e pubKey = (Inr True, key)" and a3: "alg h = ''PS256''"
    and a4: "jws_verify e key (h, p) s" and a5: "exp p \<le> unix (now rt)"
    by simp_all
  have v: "validateRefreshCookie e rt pubKey ck = (Inl TokenExpiredError, key)"
    by (rule validateRefreshCookie_expired [OF a1 a2 a3 a4 a5])
  have n: "ck \<noteq> []" by (rule map_of_nonempty [OF a1])
  from v n show "refresh_handler e rt pubKey ck rid =
          (Inl \<lparr>success = False, statusCode = 401,
                message = ''Authentication token has expired'', requestId = rid\<rparr>, key)"
    by (simp add: refresh_handler_def refresh_try_def authCatch_def statusCodeOr500_def
          newApiError_def)
  from v n show "logout_handler e rt pubKey ck rid =
          (Inl \<lparr>success = False, statusCode = 401,
                message = ''Authentication token has expired'', requestId = rid\<rparr>, key)"
    by (simp add: logout_handler_def logout_try_def authCatch_def statusCodeOr500_def
          newApiError_def)
next
  fix u
  assume "LOGIN_PREFIX e \<noteq> [] \<and> w \<noteq> [] \<and> sg \<noteq> []
          \<and> getUserByWalletId e tbl w = Inr u \<and> Verified u
          \<and> isValidEthSignature e w (LOGIN_PREFIX e @ Nonce u) sg = Inr False"
  then show "login_handler e rt tbl w sg rid =
          (Inl \<lparr>success = False, statusCode = 401,
                message = ''Validation Error: Invalid signature, access denied'',
                requestId = rid\<rparr>, tbl)"
    by (simp add: login_handler_def login_try_def authCatch_def statusCodeOr500_def
          newApiError_def)
qed

lemma example_login_try_403:
  "login_try example_env_403 example_rt [example_verified] example_wallet ''0xa11ce'' ''req-1''
     = (Inl (Error ''Forbidden'' (Some 403)), [example_verified])"
  by code_simp

lemma example_login_try_bad:
  "login_try example_env example_rt [example_verified] example_wallet ''0xbad'' ''req-1''
     = (Inl (ValidationError ''Invalid signature, access denied''), [example_verified])"
  by code_simp

lemma example_refresh_try_late:
  "refresh_try example_env example_rt_late [] (sent example_cookie) ''req-1''
     = (Inl TokenExpiredError, pem ''MIIB'')"
  by code_simp

theorem auth_paths_status_code_witness:
  "login_try example_env example_rt [example_verified] example_wallet ''0xbad'' ''req-1''
     = (Inl (ValidationError ''Invalid signature, access denied''), [example_verified])
   \<and> login_handler example_env example_rt [example_verified] example_wallet ''0xbad'' ''req-1''
     = (Inl \<lparr>success = False, statusCode = 401,
             message = ''Validation Error: Invalid signature, access denied'',
             requestId = ''req-1''\<rparr>, [example_verified])
   \<and> refresh_try example_env example_rt_late [] (sent example_cookie) ''req-1''
     = (Inl TokenExpiredError, pem ''MIIB'')
   \<and> refresh_handler example_env example_rt_late [] (sent example_cookie) ''req-1''
     = (Inl \<lparr>success = False, statusCode = 401,
             message = ''Authentication token has expired'', requestId = ''req-1''\<rparr>, pem ''MIIB'')"
  using auth_paths_status_code [of example_env example_rt "[example_verified]" example_wallet
      "''0xbad''" "''req-1''" "[]" "sent example_cookie"]
    auth_paths_status_code [of example_env example_rt_late "[example_verified]" example_wallet
      "''0xbad''" "''req-1''" "[]" "sent example_cookie"]
    example_login_try_bad example_refresh_try_late
  by simp

text \<open>A table that rejects the query with an error of status code 403: the login
  handler surfaces it with status code 403, not 401.\<close>

theorem status_403_kept_counterexample:
  "login_try example_env_403 example_rt [example_verified] example_wallet ''0xa11ce'' ''req-1''
     = (Inl (Error ''Forbidden'' (Some 403)), [example_verified])
   \<and> login_handler example_env_403 example_rt [example_verified] example_wallet ''0xa11ce'' ''req-1''
     = (Inl \<lparr>success = False, statusCode = 403, message = ''Forbidden'',
             requestId = ''req-1''\<rparr>, [example_verified])"
  using example_login_try_403
  by (simp add: login_handler_def authCatch_def statusCodeOr500_def newApiError_def)

end
